theory Spec2Isabelle
  imports Complex_Main "HOL-Library.Multiset"
begin

section \<open>The OCR pipeline of src/src/ocrmypdf.py\<close>

text \<open>
  The pipeline is a chain of stage functions, each of which runs one external tool and
  moves files between paths. A stage is embedded as a function from the pipeline state
  (file system, page metadata store, its lock, the log and the tool invocations made so
  far) to an outcome and the state after it. What an external tool does (its exit code,
  its output streams and the files it wrote) is an argument of the stage.
\<close>

subsection \<open>Data\<close>

type_synonym path = string

text \<open>
  One embedded image of a page, as the dictionaries of the page metadata record it:
  \<open>image['comp']\<close>, \<open>image['bpc']\<close> and \<open>image['color']\<close>.
\<close>

record image_ref =
  comp :: int
  bpc :: int
  color :: string

text \<open>
  A page descriptor: the keys of \<open>pageinfo\<close> that the stages read. Resolutions are
  Python numbers; every finite float is a rational.
\<close>

record pageinfo =
  images :: "image_ref list"
  xres :: rat
  yres :: rat
  xres_render :: rat
  yres_render :: rat
  width_pixels :: int
  height_pixels :: int

text \<open>
  The content of a file. What an external tool or the user wrote is text (or bytes),
  \<open>Text\<close>. The two artifacts made by modules that are not among the sources are kept
  in structured form, as the spec describes them: an hOCR artifact is a page box with
  its positioned words (in image pixels), \<open>Hocr\<close>; a rendered page is a single page
  with its visible image, the resolution of the pixel-to-point transform, the placed
  glyphs of the text layer and the two rendering flags, \<open>Page\<close>.
\<close>

record hocr_word =
  word_text :: string
  word_x :: int
  word_y :: int

record hocr_doc =
  hocr_width :: int
  hocr_height :: int
  hocr_words :: "hocr_word list"

record glyph =
  glyph_text :: string
  glyph_x_pt :: rat
  glyph_y_pt :: rat

record page_doc =
  visible_layer :: string
  page_dpi :: int
  text_layer :: "glyph list"
  text_invisible :: bool
  bounding_boxes :: bool

datatype content =
    Text string
  | Hocr hocr_doc
  | Page page_doc

text \<open>
  A log line has a level and a message; \<open>log.info(pdfinfo)\<close> logs the store itself. The
  exceptions are the ones the stages raise or let through. \<open>procs\<close> of the state lists
  the calls made on external processes, in order.
\<close>

datatype level = Debug | Info | Warning | Error

datatype message = Str string | Store_repr "pageinfo list"

datatype error =
    CalledProcessError int "string list"
  | RuntimeError string
  | FileNotFoundError path
  | SameFileError path
  | ValueError
  | IndexError
  | StopIteration
  | InvalidHocr
  | ZeroDivisionError

datatype proc_op =
    Popen "string list"
  | Communicate "nat option"
  | Kill
  | Check_call "string list"

text \<open>
  What one run of an external process did: exit code, captured streams, files written.
\<close>

record proc_result =
  returncode :: int
  stdout :: string
  stderr :: string
  writes :: "(path \<times> content) list"

text \<open>
  \<open>p.communicate(timeout=180)\<close> either returns within the timeout or raises
  \<open>TimeoutExpired\<close>; in the latter case the argument is what the killed process left.
\<close>

datatype communicate = Exited proc_result | TimeoutExpired proc_result

text \<open>
  The pipeline state: the file system, the metadata store \<open>_pdfinfo\<close> with its lock, the
  logger with its mutex, the process calls and what \<open>print\<close> wrote. \<open>logged\<close> keeps,
  with every line, whether the logger's mutex was held when it was written;
  \<open>store_ops\<close> keeps, with every access to the metadata store, whether the store's lock
  was held. Stages run one at a time here, so a lock is free whenever a stage asks for
  it.
\<close>

datatype store_op = Extend nat | Read int

record state =
  fs :: "path \<Rightarrow> content option"
  pdfinfo :: "pageinfo list"
  pdfinfo_lock :: bool
  store_ops :: "(store_op \<times> bool) list"
  logger_mutex :: bool
  logged :: "(level \<times> message \<times> bool) list"
  procs :: "proc_op list"
  console :: "string list"

datatype 'a outcome = Return 'a | Raise error

subsection \<open>Strings and numbers as Python has them\<close>

definition digit_char :: "nat \<Rightarrow> char" where
  "digit_char d = char_of (48 + d)"

fun dec :: "nat \<Rightarrow> string" where
  "dec n = (if n < 10 then [digit_char n] else dec (n div 10) @ [digit_char (n mod 10)])"

declare dec.simps [simp del]

text \<open>\<open>str(i)\<close> of an integer.\<close>

definition str_int :: "int \<Rightarrow> string" where
  "str_int i = (if i < 0 then CHR ''-'' # dec (nat (- i)) else dec (nat i))"

text \<open>\<open>'%06d' % n\<close> for a page number: decimal, padded with zeros to six characters at least.\<close>

definition fmt06d :: "nat \<Rightarrow> string" where
  "fmt06d n = replicate (6 - length (dec n)) CHR ''0'' @ dec n"

definition is_digit :: "char \<Rightarrow> bool" where
  "is_digit c = (48 \<le> (of_char c :: nat) \<and> (of_char c :: nat) \<le> 57)"

definition digit_val :: "char \<Rightarrow> nat" where
  "digit_val c = (of_char c :: nat) - 48"

text \<open>
  Whitespace as \<open>str.isspace\<close> and the regular expression class \<open>\s\<close> have it, on the
  characters below 256.
\<close>

definition isspace :: "char \<Rightarrow> bool" where
  "isspace c = ((of_char c :: nat) \<in> {9, 10, 11, 12, 13, 28, 29, 30, 31, 32, 133, 160})"

text \<open>
  The whitespace that \<open>int\<close> strips from a string: the ASCII whitespace of C, and the
  two whitespace characters from 128 to 255, which \<open>int\<close> turns into spaces first. The
  separators 28 to 31 are whitespace for \<open>str.isspace\<close> but not for \<open>int\<close>.
\<close>

definition int_space :: "char \<Rightarrow> bool" where
  "int_space c = ((of_char c :: nat) \<in> {9, 10, 11, 12, 13, 32, 133, 160})"

definition int_strip :: "string \<Rightarrow> string" where
  "int_strip s = rev (dropWhile int_space (rev (dropWhile int_space s)))"

text \<open>
  The digits of an integer literal: decimal digits, with single underscores allowed
  between two digits.
\<close>

fun digit_groups :: "string \<Rightarrow> bool" where
  "digit_groups [] = False"
| "digit_groups [c] = is_digit c"
| "digit_groups (c # d # cs) =
     (is_digit c \<and> (if d = CHR ''_'' then digit_groups cs else digit_groups (d # cs)))"

definition digits_value :: "string \<Rightarrow> nat" where
  "digits_value s = foldl (\<lambda>a c. 10 * a + digit_val c) 0 s"

text \<open>
  \<open>int(s)\<close> on a string of characters below 256: surrounding whitespace, an optional
  sign, then the digits, where underscores between digits do not count; anything
  else raises \<open>ValueError\<close> (\<open>None\<close>).
\<close>

definition py_int :: "string \<Rightarrow> int option" where
  "py_int s =
     (let t = int_strip s;
          (neg, ds) = (case t of
                         c # r \<Rightarrow> if c = CHR ''-'' then (True, r)
                                  else if c = CHR ''+'' then (False, r) else (False, t)
                       | [] \<Rightarrow> (False, t));
          v = int (digits_value (filter (\<lambda>c. c \<noteq> CHR ''_'') ds))
      in if digit_groups ds then Some (if neg then - v else v) else None)"

text \<open>\<open>os.path.basename\<close>: what follows the last slash.\<close>

definition basename :: "path \<Rightarrow> string" where
  "basename p = rev (takeWhile (\<lambda>c. c \<noteq> CHR ''/'') (rev p))"

text \<open>\<open>s.endswith(suf)\<close>.\<close>

definition endswith :: "string \<Rightarrow> string \<Rightarrow> bool" where
  "endswith s suf = (length suf \<le> length s \<and> drop (length s - length suf) s = suf)"

text \<open>Python's list indexing: a negative index counts from the end.\<close>

definition py_index :: "'a list \<Rightarrow> int \<Rightarrow> 'a option" where
  "py_index xs i =
     (if 0 \<le> i \<and> i < int (length xs) then Some (xs ! nat i)
      else if i < 0 \<and> - int (length xs) \<le> i then Some (xs ! nat (int (length xs) + i))
      else None)"

text \<open>\<open>round(x)\<close> with one argument: the nearest integer, a tie going to the even one.\<close>

definition py_round :: "rat \<Rightarrow> int" where
  "py_round x =
     (let f = \<lfloor>x\<rfloor>; d = x - of_int f
      in if d < 1 / 2 then f
         else if 1 / 2 < d then f + 1
         else if even f then f else f + 1)"

subsection \<open>The logger (class WrappedLogger)\<close>

text \<open>Every method takes the mutex, hands the message to the logger and releases the mutex.\<close>

definition logger_write :: "level \<Rightarrow> message \<Rightarrow> state \<Rightarrow> state" where
  "logger_write lv m s = s\<lparr>logged := logged s @ [(lv, m, logger_mutex s)]\<rparr>"

definition wrapped_log :: "level \<Rightarrow> message \<Rightarrow> state \<Rightarrow> state" where
  "wrapped_log lv m s =
     (let s1 = s\<lparr>logger_mutex := True\<rparr>;
          s2 = logger_write lv m s1
      in s2\<lparr>logger_mutex := False\<rparr>)"

definition log_debug :: "message \<Rightarrow> state \<Rightarrow> state" where
  "log_debug = wrapped_log Debug"

definition log_info :: "message \<Rightarrow> state \<Rightarrow> state" where
  "log_info = wrapped_log Info"

definition log_warning :: "message \<Rightarrow> state \<Rightarrow> state" where
  "log_warning = wrapped_log Warning"

definition log_error :: "message \<Rightarrow> state \<Rightarrow> state" where
  "log_error = wrapped_log Error"

subsection \<open>Files and processes\<close>

definition apply_writes :: "(path \<times> content) list \<Rightarrow> (path \<Rightarrow> content option) \<Rightarrow> (path \<Rightarrow> content option)" where
  "apply_writes ws f = foldl (\<lambda>g (p, c). g(p \<mapsto> c)) f ws"

text \<open>
  \<open>shutil.copy(src, dst)\<close> between file paths. The same-file check comes first: when
  both paths name the same file it raises \<open>SameFileError\<close>, whether the file exists or
  not. A path names one file here (no links), so two paths name the same file when
  they are equal.
\<close>

definition copy :: "path \<Rightarrow> path \<Rightarrow> state \<Rightarrow> unit outcome \<times> state" where
  "copy src dst s =
     (if src = dst then (Raise (SameFileError src), s)
      else case fs s src of
             None \<Rightarrow> (Raise (FileNotFoundError src), s)
           | Some c \<Rightarrow> (Return (), s\<lparr>fs := (fs s)(dst \<mapsto> c)\<rparr>))"

text \<open>
  \<open>check_call(args)\<close>: the process runs with inherited streams; a non-zero exit code
  raises \<open>CalledProcessError(returncode, args)\<close>.
\<close>

definition check_call :: "string list \<Rightarrow> proc_result \<Rightarrow> state \<Rightarrow> unit outcome \<times> state" where
  "check_call args r s =
     (let s1 = s\<lparr>procs := procs s @ [Check_call args], fs := apply_writes (writes r) (fs s)\<rparr>
      in if returncode r \<noteq> 0 then (Raise (CalledProcessError (returncode r) args), s1)
         else (Return (), s1))"

subsection \<open>The page metadata store\<close>

text \<open>
  \<open>get_pageinfo\<close>: the page number is the first six characters of the file's base name,
  read as an integer, minus one; the descriptor is read under the store's lock.
\<close>

definition pageno_of :: "path \<Rightarrow> int option" where
  "pageno_of input_file = map_option (\<lambda>i. i - 1) (py_int (take 6 (basename input_file)))"

definition get_pageinfo :: "path \<Rightarrow> state \<Rightarrow> pageinfo outcome \<times> state" where
  "get_pageinfo input_file s =
     (case pageno_of input_file of
        None \<Rightarrow> (Raise ValueError, s)
      | Some pageno \<Rightarrow>
          (let s1 = s\<lparr>console := console s @ [str_int pageno]\<rparr>;
               s2 = s1\<lparr>pdfinfo_lock := True\<rparr>;
               s3 = s2\<lparr>store_ops := store_ops s2 @ [(Read pageno, pdfinfo_lock s2)]\<rparr>;
               s4 = s3\<lparr>pdfinfo_lock := False\<rparr>
           in case py_index (pdfinfo s3) pageno of
                None \<Rightarrow> (Raise IndexError, s4)
              | Some pageinfo \<Rightarrow> (Return pageinfo, s4)))"

subsection \<open>Stage: rasterize\<close>

text \<open>The choice of the raster device in \<open>rasterize_with_ghostscript\<close>.\<close>

definition raster_device :: "pageinfo \<Rightarrow> string" where
  "raster_device pageinfo =
     (if list_all (\<lambda>image. comp image = 1) (images pageinfo) then
        (if list_all (\<lambda>image. bpc image = 1) (images pageinfo) then ''pngmono''
         else if \<not> list_ex (\<lambda>image. color image = ''color'') (images pageinfo) then ''pnggray''
         else ''png16m'')
      else ''png16m'')"

text \<open>
  \<open>Popen(args, stdout=PIPE, stderr=PIPE)\<close> followed by \<open>p.communicate()\<close>: the
  invocation is recorded and the files the process wrote appear in the file system.
\<close>

definition popen_communicate :: "string list \<Rightarrow> nat option \<Rightarrow> proc_result \<Rightarrow> state \<Rightarrow> state" where
  "popen_communicate args timeout r s =
     s\<lparr>procs := procs s @ [Popen args, Communicate timeout],
       fs := apply_writes (writes r) (fs s)\<rparr>"

text \<open>
  \<open>rasterize_with_ghostscript\<close>. \<open>str_of\<close> is Python's \<open>str\<close> on a resolution and
  \<open>tmp\<close> the name of the temporary file, which exists (empty) inside the \<open>with\<close> block
  and is deleted when the block is left. A non-zero exit code is logged; nothing is
  raised and no output file is written.
\<close>

definition rasterize_args :: "(rat \<Rightarrow> string) \<Rightarrow> path \<Rightarrow> string \<Rightarrow> pageinfo \<Rightarrow> path \<Rightarrow> string list" where
  "rasterize_args str_of tmp device pageinfo input_file =
     [''gs'', ''-dBATCH'', ''-dNOPAUSE'', ''-sDEVICE='' @ device, ''-o'', tmp,
      ''-r'' @ str_of (xres_render pageinfo) @ ''x'' @ str_of (yres_render pageinfo),
      input_file]"

definition rasterize_with_ghostscript ::
  "(rat \<Rightarrow> string) \<Rightarrow> path \<Rightarrow> path \<Rightarrow> path \<Rightarrow> proc_result \<Rightarrow> state \<Rightarrow> unit outcome \<times> state" where
  "rasterize_with_ghostscript str_of tmp input_file output_file r s =
     (case get_pageinfo input_file s of
        (Raise e, s1) \<Rightarrow> (Raise e, s1)
      | (Return pageinfo, s1) \<Rightarrow>
          (let device = raster_device pageinfo;
               s2 = s1\<lparr>fs := (fs s1)(tmp \<mapsto> Text [])\<rparr>;
               args_gs = rasterize_args str_of tmp device pageinfo input_file;
               s3 = popen_communicate args_gs None r s2;
               s4 = (if stdout r \<noteq> [] then log_debug (Str (stdout r)) s3 else s3);
               s5 = (if stderr r \<noteq> [] then log_error (Str (stderr r)) s4 else s4);
               (res, s6) = (if returncode r = 0 then copy tmp output_file s5
                            else (Return (), log_error (Str ''Ghostscript rendering failed'') s5))
           in (res, s6\<lparr>fs := (fs s6)(tmp := None)\<rparr>)))"

subsection \<open>Stage: recognize text\<close>

text \<open>\<open>sep.join(xs)\<close>.\<close>

fun join :: "string \<Rightarrow> string list \<Rightarrow> string" where
  "join sep [] = []"
| "join sep [x] = x"
| "join sep (x # y # ys) = x @ sep @ join sep (y # ys)"

text \<open>\<open>shutil.move(src, dst)\<close> of an existing file.\<close>

definition move :: "path \<Rightarrow> path \<Rightarrow> state \<Rightarrow> state" where
  "move src dst s = s\<lparr>fs := ((fs s)(dst := fs s src))(src := None)\<rparr>"

text \<open>
  The rewrite of the hOCR file: in every line, each match of the regular expression
  \<^verbatim>\<open>title='image "([^"]*)";\<close> is replaced by \<^verbatim>\<open>title='image " ";\<close>. The file is read
  in text mode, so a carriage return (with or without a line feed) becomes a line
  feed first. A match lies within one line, so its run of characters that are not
  double quotes holds no line feed either. An artifact kept in structured form has no
  such attribute and is left as it is.
\<close>

fun universal_newlines :: "string \<Rightarrow> string" where
  "universal_newlines [] = []"
| "universal_newlines [c] = (if c = CHR 0x0D then [CHR 0x0A] else [c])"
| "universal_newlines (c # d # cs) =
     (if c = CHR 0x0D \<and> d = CHR 0x0A then CHR 0x0A # universal_newlines cs
      else if c = CHR 0x0D then CHR 0x0A # universal_newlines (d # cs)
      else c # universal_newlines (d # cs))"

fun strip_prefix :: "string \<Rightarrow> string \<Rightarrow> string option" where
  "strip_prefix [] s = Some s"
| "strip_prefix (p # ps) [] = None"
| "strip_prefix (p # ps) (c # cs) = (if p = c then strip_prefix ps cs else None)"

definition title_open :: string where
  "title_open = ''title='' @ [CHR 0x27] @ ''image '' @ [CHR 0x22]"

definition title_close :: string where
  "title_close = [CHR 0x22, CHR '';'']"

definition match_title :: "string \<Rightarrow> string option" where
  "match_title s =
     (case strip_prefix title_open s of
        None \<Rightarrow> None
      | Some rest \<Rightarrow>
          strip_prefix title_close (dropWhile (\<lambda>x. x \<noteq> CHR 0x22 \<and> x \<noteq> CHR 0x0A) rest))"

lemma strip_prefix_length: "strip_prefix p s = Some t \<Longrightarrow> length t \<le> length s"
  by (induction p s rule: strip_prefix.induct) (auto split: if_splits)

lemma match_title_length: "match_title (c # cs) = Some t \<Longrightarrow> length t < Suc (length cs)"
proof -
  assume m: "match_title (c # cs) = Some t"
  then obtain rest where r: "strip_prefix title_open (c # cs) = Some rest"
    and t: "strip_prefix title_close (dropWhile (\<lambda>x. x \<noteq> CHR 0x22 \<and> x \<noteq> CHR 0x0A) rest) = Some t"
    by (auto simp: match_title_def split: option.splits)
  have "length rest < length (c # cs)"
    using r by (auto simp: title_open_def split: if_splits dest: strip_prefix_length)
  moreover have "length t \<le> length (dropWhile (\<lambda>x. x \<noteq> CHR 0x22 \<and> x \<noteq> CHR 0x0A) rest)"
    using t by (rule strip_prefix_length)
  moreover have "length (dropWhile (\<lambda>x. x \<noteq> CHR 0x22 \<and> x \<noteq> CHR 0x0A) rest) \<le> length rest"
    by (rule length_dropWhile_le)
  ultimately show ?thesis by simp
qed

function title_sub :: "string \<Rightarrow> string" where
  "title_sub [] = []"
| "title_sub (c # cs) =
     (case match_title (c # cs) of
        Some t \<Rightarrow> title_open @ '' '' @ title_close @ title_sub t
      | None \<Rightarrow> c # title_sub cs)"
  by pat_completeness auto
termination
  by (relation "measure length") (auto dest: match_title_length)

definition rewrite_hocr :: "content \<Rightarrow> content" where
  "rewrite_hocr c = (case c of Text s \<Rightarrow> Text (title_sub (universal_newlines s)) | _ \<Rightarrow> c)"

text \<open>
  \<open>ocr_tesseract\<close>. \<open>language\<close> and \<open>tesseract_config\<close> are the options of the same
  names; \<open>hocr_template w h\<close> is \<open>tesseract.HOCR_TEMPLATE.format(w, h)\<close>. On a timeout
  the process is killed, its streams are read to the end and the template is written
  to the output file; nothing is logged and nothing is raised.
\<close>

definition tesseract_args :: "string list \<Rightarrow> string list \<Rightarrow> path \<Rightarrow> path \<Rightarrow> string list" where
  "tesseract_args language tesseract_config input_file output_file =
     [''tesseract'', ''-l'', join ''+'' language, input_file, output_file, ''hocr''] @ tesseract_config"

definition ocr_tesseract ::
  "string list \<Rightarrow> string list \<Rightarrow> (int \<Rightarrow> int \<Rightarrow> content) \<Rightarrow> path \<Rightarrow> path \<Rightarrow> communicate \<Rightarrow> state
     \<Rightarrow> unit outcome \<times> state" where
  "ocr_tesseract language tesseract_config hocr_template input_file output_file c s =
     (case get_pageinfo input_file s of
        (Raise e, s1) \<Rightarrow> (Raise e, s1)
      | (Return pageinfo, s1) \<Rightarrow>
          (let args_tesseract = tesseract_args language tesseract_config input_file output_file
           in case c of
                TimeoutExpired r \<Rightarrow>
                  (let s2 = popen_communicate args_tesseract (Some 180) r s1;
                       s3 = s2\<lparr>procs := procs s2 @ [Kill, Communicate None]\<rparr>
                   in (Return (),
                       s3\<lparr>fs := (fs s3)(output_file \<mapsto>
                              hocr_template (width_pixels pageinfo) (height_pixels pageinfo))\<rparr>))
              | Exited r \<Rightarrow>
                  (let s2 = popen_communicate args_tesseract (Some 180) r s1;
                       s3 = (if stdout r \<noteq> [] then log_info (Str (stdout r)) s2 else s2);
                       s4 = (if stderr r \<noteq> [] then log_error (Str (stderr r)) s3 else s3)
                   in if returncode r \<noteq> 0
                      then (Raise (CalledProcessError (returncode r) args_tesseract), s4)
                      else
                        (let s5 = (if fs s4 (output_file @ ''.html'') \<noteq> None
                                   then move (output_file @ ''.html'') output_file s4
                                   else if fs s4 (output_file @ ''.hocr'') \<noteq> None
                                   then move (output_file @ ''.hocr'') output_file s4
                                   else s4)
                         in case fs s5 output_file of
                              None \<Rightarrow> (Raise (FileNotFoundError output_file), s5)
                            | Some h \<Rightarrow>
                                (Return (), s5\<lparr>fs := (fs s5)(output_file \<mapsto> rewrite_hocr h)\<rparr>)))))"


subsection \<open>Stage: render a page\<close>

text \<open>
  \<open>render_page\<close>. \<open>to_pdf f hocr dpi image boxes invisible\<close> stands for
  \<open>HocrTransform(hocr, dpi).to_pdf(output_file, imageFileName=image,
  showBoundingboxes=boxes, invisibleText=invisible)\<close> on the file system \<open>f\<close>: the
  document it writes, or the exception it raises.
\<close>

definition render_dpi :: "pageinfo \<Rightarrow> int" where
  "render_dpi pageinfo = py_round (max (xres pageinfo) (yres pageinfo))"

definition render_page ::
  "((path \<Rightarrow> content option) \<Rightarrow> path \<Rightarrow> int \<Rightarrow> path \<Rightarrow> bool \<Rightarrow> bool \<Rightarrow> error + content)
     \<Rightarrow> path list \<Rightarrow> path \<Rightarrow> state \<Rightarrow> unit outcome \<times> state" where
  "render_page to_pdf infiles output_file s =
     (case find (\<lambda>ii. endswith ii ''.hocr'') infiles of
        None \<Rightarrow> (Raise StopIteration, s)
      | Some hocr \<Rightarrow>
          (case find (\<lambda>ii. endswith ii ''.page.png'') infiles of
             None \<Rightarrow> (Raise StopIteration, s)
           | Some image_file \<Rightarrow>
               (case get_pageinfo image_file s of
                  (Raise e, s1) \<Rightarrow> (Raise e, s1)
                | (Return pageinfo, s1) \<Rightarrow>
                    (let dpi = render_dpi pageinfo
                     in case to_pdf (fs s1) hocr dpi image_file False True of
                          Inl e \<Rightarrow> (Raise e, s1)
                        | Inr pdf \<Rightarrow> (Return (), s1\<lparr>fs := (fs s1)(output_file \<mapsto> pdf)\<rparr>)))))"

text \<open>
  Modelled from the spec: class \<open>HocrTransform\<close> (module hocrtransform) and the constant
  \<open>HOCR_TEMPLATE\<close> (module tesseract) are not among the sources. The spec says of them:
  the fallback is "an empty but structurally valid artifact"; the recognized text is "a
  positioned-text description in image pixel space"; the rendered output is "one
  single-page document whose visible layer is the original image and whose invisible
  text layer is positioned using the same pixel-to-point transform implied by the
  page's target resolution"; a fallback input "must still succeed and emit a page with
  no text layer". A point is 1/72 inch, so a pixel at \<open>dpi\<close> pixels per inch is
  \<open>72 / dpi\<close> points.
\<close>

definition HOCR_TEMPLATE_format :: "int \<Rightarrow> int \<Rightarrow> content" where
  "HOCR_TEMPLATE_format w h = Hocr \<lparr>hocr_width = w, hocr_height = h, hocr_words = []\<rparr>"

definition px2pt :: "int \<Rightarrow> int \<Rightarrow> rat" where
  "px2pt dpi px = of_int px * 72 / of_int dpi"

definition place_word :: "int \<Rightarrow> hocr_word \<Rightarrow> glyph" where
  "place_word dpi w =
     \<lparr>glyph_text = word_text w, glyph_x_pt = px2pt dpi (word_x w), glyph_y_pt = px2pt dpi (word_y w)\<rparr>"

definition HocrTransform_to_pdf ::
  "(path \<Rightarrow> content option) \<Rightarrow> path \<Rightarrow> int \<Rightarrow> path \<Rightarrow> bool \<Rightarrow> bool \<Rightarrow> error + content" where
  "HocrTransform_to_pdf f hocr dpi image_file showBoundingboxes invisibleText =
     (case f hocr of
        None \<Rightarrow> Inl (FileNotFoundError hocr)
      | Some (Hocr d) \<Rightarrow>
          (case f image_file of
             Some (Text png) \<Rightarrow>
               if dpi = 0 then Inl ZeroDivisionError
               else Inr (Page \<lparr>visible_layer = png, page_dpi = dpi,
                                text_layer = map (place_word dpi) (hocr_words d),
                                text_invisible = invisibleText,
                                bounding_boxes = showBoundingboxes\<rparr>)
           | Some _ \<Rightarrow> Inl ValueError
           | None \<Rightarrow> Inl (FileNotFoundError image_file))
      | Some _ \<Rightarrow> Inl InvalidHocr)"

subsection \<open>Stages: repair, split, format declaration\<close>

text \<open>
  \<open>repair_pdf\<close>. \<open>pdf_get_all_pageinfo f p\<close> stands for the function of that name
  (module pageinfo, not among the sources) on the file \<open>p\<close> of the file system \<open>f\<close>. The
  store is extended, and the store logged, while the lock is held; the lock is
  released when the \<open>with\<close> block is left, also by an exception.
\<close>

definition repair_pdf ::
  "((path \<Rightarrow> content option) \<Rightarrow> path \<Rightarrow> error + pageinfo list)
     \<Rightarrow> path \<Rightarrow> path \<Rightarrow> proc_result \<Rightarrow> state \<Rightarrow> unit outcome \<times> state" where
  "repair_pdf pdf_get_all_pageinfo input_file output_file r s =
     (let args_mutool = [''mutool'', ''clean'', input_file, output_file]
      in case check_call args_mutool r s of
           (Raise e, s1) \<Rightarrow> (Raise e, s1)
         | (Return _, s1) \<Rightarrow>
             (let s2 = s1\<lparr>pdfinfo_lock := True\<rparr>
              in case pdf_get_all_pageinfo (fs s2) output_file of
                   Inl e \<Rightarrow> (Raise e, s2\<lparr>pdfinfo_lock := False\<rparr>)
                 | Inr pages \<Rightarrow>
                     (let s3 = s2\<lparr>pdfinfo := pdfinfo s2 @ pages,
                                   store_ops := store_ops s2 @ [(Extend (length pages), pdfinfo_lock s2)]\<rparr>;
                          s4 = log_info (Store_repr (pdfinfo s3)) s3
                      in (Return (), s4\<lparr>pdfinfo_lock := False\<rparr>))))"

text \<open>
  \<open>split_pages\<close>: earlier outputs are unlinked, then the page separation tool is called
  with the pattern \<open>root + '%06d.page.pdf'\<close>. The tool writes page \<open>n\<close> (counted from
  one) to the pattern filled with \<open>n\<close>: \<open>page_file root n\<close>.
\<close>

definition page_file :: "path \<Rightarrow> nat \<Rightarrow> path" where
  "page_file output_file_name_root n = output_file_name_root @ fmt06d n @ ''.page.pdf''"

definition split_pages :: "path \<Rightarrow> path list \<Rightarrow> path \<Rightarrow> proc_result \<Rightarrow> state \<Rightarrow> unit outcome \<times> state" where
  "split_pages input_file output_files output_file_name_root r s =
     (let s1 = s\<lparr>fs := foldl (\<lambda>f oo. f(oo := None)) (fs s) output_files\<rparr>;
          args_pdfseparate = [''pdfseparate'', input_file, output_file_name_root @ ''%06d.page.pdf'']
      in check_call args_pdfseparate r s1)"

text \<open>\<open>generate_postscript_stub\<close>; \<open>pdfa_def\<close> is what \<open>generate_pdfa_def\<close> writes.\<close>

definition generate_postscript_stub :: "content \<Rightarrow> path \<Rightarrow> path \<Rightarrow> state \<Rightarrow> unit outcome \<times> state" where
  "generate_postscript_stub pdfa_def input_file output_file s =
     (Return (), s\<lparr>fs := (fs s)(output_file \<mapsto> pdfa_def)\<rparr>)"

subsection \<open>Stage: merge\<close>

text \<open>
  \<open>merge_pages\<close>: the last input is the format declaration, the others are the pages,
  taken in the order of the input list.
\<close>

definition merge_flags :: "path \<Rightarrow> string list" where
  "merge_flags tmp =
     [''gs'', ''-dQUIET'', ''-dBATCH'', ''-dNOPAUSE'', ''-sDEVICE=pdfwrite'',
      ''-sColorConversionStrategy=/RGB'', ''-sProcessColorModel=DeviceRGB'', ''-dPDFA'',
      ''-sPDFACompatibilityPolicy=2'', ''-sOutputICCProfile=srgb.icc'',
      ''-sOutputFile='' @ tmp]"

definition merge_args :: "path \<Rightarrow> path list \<Rightarrow> string list" where
  "merge_args tmp input_files = merge_flags tmp @ [last input_files] @ butlast input_files"

definition merge_pages :: "path \<Rightarrow> path list \<Rightarrow> path \<Rightarrow> proc_result \<Rightarrow> state \<Rightarrow> unit outcome \<times> state" where
  "merge_pages tmp input_files output_file r s =
     (if input_files = [] then (Raise IndexError, s)
      else
        (let s1 = s\<lparr>fs := (fs s)(tmp \<mapsto> Text [])\<rparr>;
             args_gs = merge_args tmp input_files;
             (res, s3) = (case check_call args_gs r s1 of
                            (Raise e, s2) \<Rightarrow> (Raise e, s2)
                          | (Return _, s2) \<Rightarrow> copy tmp output_file s2)
         in (res, s3\<lparr>fs := (fs s3)(tmp := None)\<rparr>)))"

text \<open>
  Modelled from the spec: the scheduler that collects the inputs of the merge stage is
  not among the sources. The spec says: "output page order in the final Merge always
  matches input page order, recovered from the numeric prefix embedded in each per-page
  artifact's path, never from completion order"; the decorator of \<open>merge_pages\<close> lists
  the rendered pages before the format declaration. \<open>finished\<close> holds the rendered
  pages in the order in which their stages completed.
\<close>

definition prefix_key :: "path \<Rightarrow> int" where
  "prefix_key p = (case py_int (take 6 (basename p)) of Some i \<Rightarrow> i | None \<Rightarrow> 0)"

definition merge_inputs :: "path list \<Rightarrow> path \<Rightarrow> path list" where
  "merge_inputs finished postscript = sort_key prefix_key finished @ [postscript]"

text \<open>The rendered page of page \<open>n\<close>: the collate stage's output pattern \<open>\1.rendered.pdf\<close>.\<close>

definition rendered_file :: "nat \<Rightarrow> path" where
  "rendered_file n = fmt06d n @ ''.rendered.pdf''"


subsection \<open>Stage: validate\<close>

text \<open>
  The four searches of \<open>validate_pdfa\<close>, all with \<open>re.IGNORECASE | re.MULTILINE\<close>. The
  patterns hold ASCII letters only, so letters are compared after lowering \<open>A\<close> to
  \<open>Z\<close>.
\<close>

definition lower :: "char \<Rightarrow> char" where
  "lower c = (if 65 \<le> (of_char c :: nat) \<and> (of_char c :: nat) \<le> 90
              then char_of ((of_char c :: nat) + 32) else c)"

text \<open>The literal \<open>pat\<close> matches at the start of the text, whatever the case of its letters.\<close>

fun ci_prefix :: "string \<Rightarrow> string \<Rightarrow> bool" where
  "ci_prefix [] s = True"
| "ci_prefix (p # ps) [] = False"
| "ci_prefix (p # ps) (c # cs) = (lower p = lower c \<and> ci_prefix ps cs)"

text \<open>\<open>re.search(pat, s)\<close> for a literal: it matches somewhere.\<close>

fun search_literal :: "string \<Rightarrow> string \<Rightarrow> bool" where
  "search_literal pat [] = ci_prefix pat []"
| "search_literal pat (c # cs) = (ci_prefix pat (c # cs) \<or> search_literal pat cs)"

text \<open>\<open>.*pat\<close> at the start of the text: the dot matches every character but a line feed.\<close>

fun dot_star_then :: "string \<Rightarrow> string \<Rightarrow> bool" where
  "dot_star_then pat [] = ci_prefix pat []"
| "dot_star_then pat (c # cs) = (ci_prefix pat (c # cs) \<or> (c \<noteq> CHR 0x0A \<and> dot_star_then pat cs))"

text \<open>
  \<open>\s+key.*pat\<close> at the start of the text. The key starts with a letter, so the
  whitespace matched is the whole run of whitespace (line feeds included), and it is
  not empty.
\<close>

definition indented_match :: "string \<Rightarrow> string \<Rightarrow> string \<Rightarrow> bool" where
  "indented_match key pat s =
     (let r = dropWhile isspace s
      in length r < length s \<and> ci_prefix key r \<and> dot_star_then pat (drop (length key) r))"

text \<open>\<open>^\<close> under \<open>re.MULTILINE\<close>: the start of the text and every position after a line feed.\<close>

fun after_newline :: "(string \<Rightarrow> bool) \<Rightarrow> string \<Rightarrow> bool" where
  "after_newline m [] = False"
| "after_newline m (c # cs) = ((c = CHR 0x0A \<and> m cs) \<or> after_newline m cs)"

definition search_line_start :: "(string \<Rightarrow> bool) \<Rightarrow> string \<Rightarrow> bool" where
  "search_line_start m s = (m s \<or> after_newline m s)"

definition pdf_is_valid :: "string \<Rightarrow> bool" where
  "pdf_is_valid out =
     (\<not> search_literal ''ErrorMessage'' out
      \<and> \<not> search_line_start (indented_match ''Status'' ''not valid'') out
      \<and> \<not> search_line_start (indented_match ''Status'' ''Not well-formed'') out)"

definition pdf_is_pdfa :: "string \<Rightarrow> bool" where
  "pdf_is_pdfa out = search_line_start (indented_match ''Profile:'' ''PDF/A-1'') out"

text \<open>
  \<open>validate_pdfa\<close>. \<open>JHOVE_JAR\<close> and \<open>JHOVE_CFG\<close> are the module's constants of these
  names. The validator's standard error is discarded. After an exit code of zero the
  verdict is logged and the candidate copied to the output path, whatever the verdict.
\<close>

definition validate_pdfa ::
  "string \<Rightarrow> string \<Rightarrow> path \<Rightarrow> path \<Rightarrow> proc_result \<Rightarrow> state \<Rightarrow> unit outcome \<times> state" where
  "validate_pdfa JHOVE_JAR JHOVE_CFG input_file output_file r s =
     (let args_jhove = [''java'', ''-jar'', JHOVE_JAR, ''-c'', JHOVE_CFG, ''-m'', ''PDF-hul'', input_file];
          s1 = popen_communicate args_jhove None r s;
          s2 = log_debug (Str (stdout r)) s1
      in if returncode r \<noteq> 0
         then (Raise (RuntimeError ''Unexpected error while checking compliance to PDF/A file.''),
               log_error (Str (stdout r)) s2)
         else
           (let s3 = (if \<not> pdf_is_valid (stdout r)
                      then log_warning (Str ''Output file: The generated PDF/A file is INVALID'') s2
                      else if \<not> pdf_is_pdfa (stdout r)
                      then log_warning (Str ''Output file: Generated file is a VALID PDF but not PDF/A'') s2
                      else log_info (Str ''Output file: The generated PDF/A file is VALID'') s2)
            in copy input_file output_file s3))"

subsection \<open>A three page example\<close>

text \<open>A document of three pages, each holding one monochrome image scanned at 300 dpi.\<close>

definition mono_image :: image_ref where
  "mono_image = \<lparr>comp = 1, bpc = 1, color = ''gray''\<rparr>"

definition example_page :: pageinfo where
  "example_page =
     \<lparr>images = [mono_image], xres = 300, yres = 300, xres_render = 300, yres_render = 300,
      width_pixels = 2550, height_pixels = 3300\<rparr>"

definition example_state :: state where
  "example_state =
     \<lparr>fs = Map.empty, pdfinfo = [example_page, example_page, example_page],
      pdfinfo_lock = False, store_ops = [], logger_mutex = False, logged = [], procs = [],
      console = []\<rparr>"

text \<open>A failing run of a tool, two validator reports and a state that holds the merged candidate.\<close>

definition failed_run :: proc_result where
  "failed_run = \<lparr>returncode = 1, stdout = [], stderr = [], writes = []\<rparr>"

definition malformed_report :: string where
  "malformed_report = '' Status: Not well-formed''"

definition conformant_report :: string where
  "conformant_report =
     '' Status: Well-Formed and valid'' @ [CHR 0x0A] @ '' Profile: ISO PDF/A-1, Level B''"

definition merged_state :: state where
  "merged_state = example_state\<lparr>fs := [''tmp/merged.pdf'' \<mapsto> Text ''%PDF'']\<rparr>"

text \<open>A run of the text recognition engine that exits with code zero and prints one line.\<close>

definition ocr_run :: proc_result where
  "ocr_run =
     \<lparr>returncode = 0, stdout = ''Tesseract Open Source OCR Engine'', stderr = [],
      writes = [(''tmp/000001.hocr'', Text ''<html/>'')]\<rparr>"

text \<open>A run of the repair tool, and a page extractor that finds three pages in any existing file.\<close>

definition repair_run :: proc_result where
  "repair_run =
     \<lparr>returncode = 0, stdout = [], stderr = [],
      writes = [(''tmp/in.repaired.pdf'', Text ''%PDF'')]\<rparr>"

definition three_pages :: "(path \<Rightarrow> content option) \<Rightarrow> path \<Rightarrow> error + pageinfo list" where
  "three_pages f p =
     (case f p of None \<Rightarrow> Inl (FileNotFoundError p)
      | Some c \<Rightarrow> Inr [example_page, example_page, example_page])"

definition empty_state :: state where
  "empty_state = example_state\<lparr>pdfinfo := []\<rparr>"

text \<open>
  States after text recognition of the first page (one word recognized), the same with
  a page scanned at 72.5 by 72 dpi, and a state in which the second page awaits text
  recognition; the result of a killed process.
\<close>

definition ocr_done_state :: state where
  "ocr_done_state =
     example_state\<lparr>fs := [''tmp/000001.page.png'' \<mapsto> Text ''PNG'',
                         ''tmp/000001.hocr'' \<mapsto>
                           Hocr \<lparr>hocr_width = 2550, hocr_height = 3300,
                                 hocr_words = [\<lparr>word_text = ''Hello'', word_x = 300, word_y = 600\<rparr>]\<rparr>]\<rparr>"

definition half_page :: pageinfo where
  "half_page = example_page\<lparr>xres := 145 / 2, yres := 72\<rparr>"

definition half_state :: state where
  "half_state = ocr_done_state\<lparr>pdfinfo := [half_page]\<rparr>"

definition killed_run :: proc_result where
  "killed_run = \<lparr>returncode = - 9, stdout = [], stderr = [], writes = []\<rparr>"

definition timeout_state :: state where
  "timeout_state = example_state\<lparr>fs := [''tmp/000002.page.png'' \<mapsto> Text ''PNG'']\<rparr>"

text \<open>
  Pages with a grayscale image, with a colour image beside a monochrome one and with
  no image, and the state whose store holds one given page.
\<close>

definition gray_page :: pageinfo where
  "gray_page = example_page\<lparr>images := [\<lparr>comp = 1, bpc = 8, color = ''gray''\<rparr>]\<rparr>"

definition colour_page :: pageinfo where
  "colour_page =
     example_page\<lparr>images := [mono_image, \<lparr>comp = 3, bpc = 8, color = ''color''\<rparr>]\<rparr>"

definition blank_page :: pageinfo where
  "blank_page = example_page\<lparr>images := []\<rparr>"

definition single_page_state :: "pageinfo \<Rightarrow> state" where
  "single_page_state p = example_state\<lparr>pdfinfo := [p]\<rparr>"

definition clean_run :: proc_result where
  "clean_run = \<lparr>returncode = 0, stdout = [], stderr = [], writes = []\<rparr>"

section \<open>Proofs\<close>

subsection \<open>Decimal numerals\<close>

lemma dec_small: "n < 10 \<Longrightarrow> dec n = [digit_char n]"
  by (subst dec.simps) simp

lemma dec_big: "10 \<le> n \<Longrightarrow> dec n = dec (n div 10) @ [digit_char (n mod 10)]"
  by (subst dec.simps) simp

lemma is_digit_digit_char: "d < 10 \<Longrightarrow> is_digit (digit_char d)"
  unfolding is_digit_def digit_char_def by (simp add: of_char_of)

lemma digit_val_digit_char: "d < 10 \<Longrightarrow> digit_val (digit_char d) = d"
  unfolding digit_val_def digit_char_def by (simp add: of_char_of)

lemma dec_digits: "list_all is_digit (dec n)"
proof (induction n rule: dec.induct)
  case (1 n)
  show ?case
  proof (cases "n < 10")
    case True
    then show ?thesis by (simp add: dec_small is_digit_digit_char)
  next
    case False
    then have "list_all is_digit (dec (n div 10))" using 1 by simp
    with False show ?thesis by (simp add: dec_big is_digit_digit_char)
  qed
qed

lemma dec_not_Nil: "dec n \<noteq> []"
  by (subst dec.simps) simp

lemma digits_value_snoc: "digits_value (xs @ [c]) = 10 * digits_value xs + digit_val c"
  by (simp add: digits_value_def)

lemma digits_value_dec: "digits_value (dec n) = n"
proof (induction n rule: dec.induct)
  case (1 n)
  show ?case
  proof (cases "n < 10")
    case True
    then show ?thesis by (simp add: dec_small digits_value_def digit_val_digit_char)
  next
    case False
    then have "digits_value (dec (n div 10)) = n div 10" using 1 by simp
    with False show ?thesis by (simp add: dec_big digits_value_snoc digit_val_digit_char)
  qed
qed

lemma length_dec_le: "0 < k \<Longrightarrow> n < 10 ^ k \<Longrightarrow> length (dec n) \<le> k"
proof (induction k arbitrary: n)
  case 0
  then show ?case by simp
next
  case (Suc k)
  show ?case
  proof (cases "n < 10")
    case True
    then show ?thesis by (simp add: dec_small)
  next
    case False
    then have k: "0 < k" using Suc.prems by (cases k) auto
    have "n div 10 < 10 ^ k" using Suc.prems by (simp add: less_mult_imp_div_less mult.commute)
    then have "length (dec (n div 10)) \<le> k" using Suc.IH k by simp
    with False show ?thesis by (simp add: dec_big)
  qed
qed

lemma length_dec_gt: "10 ^ k \<le> n \<Longrightarrow> k < length (dec n)"
proof (induction k arbitrary: n)
  case 0
  then show ?case using dec_not_Nil [of n] by (cases "dec n") auto
next
  case (Suc k)
  have "(10::nat) \<le> 10 ^ Suc k" by simp
  then have big: "10 \<le> n" using Suc.prems by (rule le_trans)
  have "10 ^ k \<le> n div 10" using Suc.prems by (simp add: less_eq_div_iff_mult_less_eq mult.commute)
  then have "k < length (dec (n div 10))" using Suc.IH by simp
  with big show ?case by (simp add: dec_big)
qed

lemma digit_char_0: "digit_char 0 = CHR ''0''"
  by code_simp

lemma digit_char_1: "digit_char (Suc 0) = CHR ''1''"
  by code_simp

lemma dec_million: "dec 1000000 = ''1000000''"
  by (simp add: dec_big [of 1000000] dec_big [of 100000] dec_big [of 10000] dec_big [of 1000]
      dec_big [of 100] dec_big [of 10] dec_small [of "Suc 0"] digit_char_0 digit_char_1)

subsection \<open>Page numbers from file names\<close>

lemma digits_value_zeros: "digits_value (replicate k CHR ''0'' @ s) = digits_value s"
proof -
  have z: "foldl (\<lambda>a c. 10 * a + digit_val c) 0 (replicate k CHR ''0'') = 0"
    by (induction k) (simp_all add: digit_val_def)
  show ?thesis by (simp add: digits_value_def z)
qed

lemma is_digit_zero: "is_digit CHR ''0''"
  by (simp add: is_digit_def)

lemma fmt06d_digits: "list_all is_digit (fmt06d n)"
proof -
  have "\<forall>x\<in>set (dec n). is_digit x" using dec_digits [of n] by (simp add: list_all_iff)
  then show ?thesis by (auto simp: fmt06d_def list_all_iff is_digit_zero)
qed

lemma fmt06d_value: "digits_value (fmt06d n) = n"
  by (simp add: fmt06d_def digits_value_zeros digits_value_dec)

lemma fmt06d_length: "n < 1000000 \<Longrightarrow> length (fmt06d n) = 6"
proof -
  assume "n < 1000000"
  then have "length (dec n) \<le> 6" using length_dec_le [of 6 n] by simp
  then show ?thesis by (simp add: fmt06d_def)
qed

lemma fmt06d_long: "1000000 \<le> n \<Longrightarrow> fmt06d n = dec n \<and> 6 < length (dec n)"
proof -
  assume "1000000 \<le> n"
  then have "6 < length (dec n)" using length_dec_gt [of 6 n] by simp
  then show ?thesis by (simp add: fmt06d_def)
qed

lemma fmt06d_not_Nil: "fmt06d n \<noteq> []"
  by (simp add: fmt06d_def dec_not_Nil)

lemma fmt06d_million: "fmt06d 1000000 = ''1000000''"
  by (simp add: fmt06d_def dec_million)

lemma is_digit_not_slash: "is_digit c \<Longrightarrow> c \<noteq> CHR ''/''"
  by (auto simp: is_digit_def)

lemma is_digit_not_sign: "is_digit c \<Longrightarrow> c \<noteq> CHR ''-'' \<and> c \<noteq> CHR ''+''"
  by (auto simp: is_digit_def)

lemma is_digit_not_space: "is_digit c \<Longrightarrow> \<not> int_space c"
  by (auto simp: is_digit_def int_space_def)

lemma is_digit_not_underscore: "is_digit c \<Longrightarrow> c \<noteq> CHR ''_''"
  by (auto simp: is_digit_def)

lemma digit_groups_digits: "s \<noteq> [] \<Longrightarrow> list_all is_digit s \<Longrightarrow> digit_groups s"
  by (induction s rule: digit_groups.induct) (auto simp: is_digit_not_underscore)

lemma filter_underscore_digits: "list_all is_digit s \<Longrightarrow> filter (\<lambda>c. c \<noteq> CHR ''_'') s = s"
  by (induction s) (auto simp: is_digit_not_underscore)

lemma dropWhile_none: "list_all (\<lambda>c. \<not> P c) s \<Longrightarrow> dropWhile P s = s"
  by (cases s) auto

lemma strip_digits: "list_all is_digit s \<Longrightarrow> int_strip s = s"
proof -
  assume d: "list_all is_digit s"
  then have a: "list_all (\<lambda>c. \<not> int_space c) s"
    by (auto simp: list_all_iff is_digit_not_space)
  then have b: "list_all (\<lambda>c. \<not> int_space c) (rev s)"
    by (simp add: list_all_iff)
  show ?thesis by (simp add: int_strip_def dropWhile_none [OF a] dropWhile_none [OF b])
qed

lemma py_int_digits: "s \<noteq> [] \<Longrightarrow> list_all is_digit s \<Longrightarrow> py_int s = Some (int (digits_value s))"
proof -
  assume ne: "s \<noteq> []" and d: "list_all is_digit s"
  then obtain c r where s: "s = c # r" by (cases s) auto
  with d have "is_digit c" by simp
  then have "c \<noteq> CHR ''-''" "c \<noteq> CHR ''+''" using is_digit_not_sign [of c] by simp_all
  then show ?thesis
    using d s digit_groups_digits [OF ne d] filter_underscore_digits [OF d]
    by (simp add: py_int_def strip_digits)
qed

lemma basename_append: "CHR ''/'' \<notin> set name \<Longrightarrow> basename (dir @ ''/'' @ name) = name"
proof -
  assume a: "CHR ''/'' \<notin> set name"
  have "takeWhile (\<lambda>c. c \<noteq> CHR ''/'') (rev name @ CHR ''/'' # rev dir) = rev name"
    using a by (auto simp: takeWhile_tail)
  then show ?thesis by (simp add: basename_def)
qed

lemma basename_no_slash: "CHR ''/'' \<notin> set p \<Longrightarrow> basename p = p"
proof -
  assume "CHR ''/'' \<notin> set p"
  then have "takeWhile (\<lambda>c. c \<noteq> CHR ''/'') (rev p) = rev p"
    by (auto simp: takeWhile_eq_all_conv)
  then show ?thesis by (simp only: basename_def rev_rev_ident)
qed

lemma pageno_of_prefix:
  assumes "n < 1000000" and "CHR ''/'' \<notin> set suf"
  shows "pageno_of (dir @ ''/'' @ fmt06d n @ suf) = Some (int n - 1)"
proof -
  have "CHR ''/'' \<notin> set (fmt06d n)"
    using fmt06d_digits [of n] is_digit_not_slash by (auto simp: list_all_iff)
  then have "CHR ''/'' \<notin> set (fmt06d n @ suf)" using assms by simp
  then have b: "basename (dir @ CHR ''/'' # fmt06d n @ suf) = fmt06d n @ suf"
    using basename_append [of "fmt06d n @ suf" dir] by simp
  have t: "take 6 (fmt06d n @ suf) = fmt06d n"
    using fmt06d_length [OF assms(1)] by simp
  have "py_int (take 6 (basename (dir @ CHR ''/'' # fmt06d n @ suf))) = Some (int n)"
    unfolding b t by (simp add: py_int_digits fmt06d_not_Nil fmt06d_digits fmt06d_value)
  then show ?thesis by (simp add: pageno_of_def)
qed

lemma prefix_key_rendered:
  assumes "n < 1000000"
  shows "prefix_key (rendered_file n) = int n"
proof -
  have "CHR ''/'' \<notin> set (fmt06d n)"
    using fmt06d_digits [of n] is_digit_not_slash by (auto simp: list_all_iff)
  then have "CHR ''/'' \<notin> set (rendered_file n)" by (simp add: rendered_file_def)
  then have b: "basename (rendered_file n) = fmt06d n @ ''.rendered.pdf''"
    by (simp add: basename_no_slash rendered_file_def)
  have t: "take 6 (fmt06d n @ ''.rendered.pdf'') = fmt06d n"
    using fmt06d_length [OF assms] by simp
  have "py_int (take 6 (basename (rendered_file n))) = Some (int n)"
    unfolding b t by (simp add: py_int_digits fmt06d_not_Nil fmt06d_digits fmt06d_value)
  then show ?thesis by (simp add: prefix_key_def)
qed

lemma py_index_nat: "i < length xs \<Longrightarrow> py_index xs (int i) = Some (xs ! i)"
  by (simp add: py_index_def)

subsection \<open>The metadata lookup\<close>

lemma get_pageinfo_Return:
  assumes "pageno_of p = Some (int i)" and "i < length (pdfinfo s)"
  shows "get_pageinfo p s =
           (Return (pdfinfo s ! i),
            s\<lparr>console := console s @ [str_int (int i)],
              store_ops := store_ops s @ [(Read (int i), True)],
              pdfinfo_lock := False\<rparr>)"
  using assms by (simp add: get_pageinfo_def py_index_nat Let_def)

lemma get_pageinfo_frame:
  "logged (snd (get_pageinfo p s)) = logged s"
  "fs (snd (get_pageinfo p s)) = fs s"
  "pdfinfo (snd (get_pageinfo p s)) = pdfinfo s"
  "procs (snd (get_pageinfo p s)) = procs s"
  "logger_mutex (snd (get_pageinfo p s)) = logger_mutex s"
  by (simp_all add: get_pageinfo_def Let_def split: option.splits)

lemma get_pageinfo_split:
  assumes "fst (get_pageinfo p s) = Return q"
  obtains s1 where "get_pageinfo p s = (Return q, s1)" and "fs s1 = fs s" and "logged s1 = logged s"
    and "procs s1 = procs s" and "pdfinfo s1 = pdfinfo s"
proof -
  have "get_pageinfo p s = (Return q, snd (get_pageinfo p s))"
    using assms by (metis prod.collapse)
  then show ?thesis using that get_pageinfo_frame by metis
qed

lemma get_pageinfo_outcome_cong:
  "pdfinfo s' = pdfinfo s \<Longrightarrow> fst (get_pageinfo q s') = fst (get_pageinfo q s)"
  by (simp add: get_pageinfo_def Let_def split: option.splits)

lemma first_page_lookup:
  assumes "pageno_of p = Some 0" and "pdfinfo s = q # qs"
  shows "fst (get_pageinfo p s) = Return q"
proof -
  have "pageno_of p = Some (int 0)" using assms(1) by simp
  moreover have "0 < length (pdfinfo s)" using assms(2) by simp
  ultimately show ?thesis using assms(2) by (simp add: get_pageinfo_Return)
qed

subsection \<open>Logging and process bookkeeping\<close>

lemma wrapped_log_fields [simp]:
  "logged (wrapped_log lv m s) = logged s @ [(lv, m, True)]"
  "logger_mutex (wrapped_log lv m s) = False"
  "fs (wrapped_log lv m s) = fs s"
  "pdfinfo (wrapped_log lv m s) = pdfinfo s"
  "pdfinfo_lock (wrapped_log lv m s) = pdfinfo_lock s"
  "store_ops (wrapped_log lv m s) = store_ops s"
  "procs (wrapped_log lv m s) = procs s"
  "console (wrapped_log lv m s) = console s"
  by (simp_all add: wrapped_log_def logger_write_def)

lemma popen_communicate_fields [simp]:
  "logged (popen_communicate a t r s) = logged s"
  "logger_mutex (popen_communicate a t r s) = logger_mutex s"
  "fs (popen_communicate a t r s) = apply_writes (writes r) (fs s)"
  "pdfinfo (popen_communicate a t r s) = pdfinfo s"
  "pdfinfo_lock (popen_communicate a t r s) = pdfinfo_lock s"
  "store_ops (popen_communicate a t r s) = store_ops s"
  "procs (popen_communicate a t r s) = procs s @ [Popen a, Communicate t]"
  "console (popen_communicate a t r s) = console s"
  by (simp_all add: popen_communicate_def)

lemmas level_defs = log_debug_def log_info_def log_warning_def log_error_def

lemma check_call_fst:
  "fst (check_call args r s) =
     (if returncode r \<noteq> 0 then Raise (CalledProcessError (returncode r) args) else Return ())"
  by (simp add: check_call_def Let_def)

lemma check_call_fields [simp]:
  "logged (snd (check_call args r s)) = logged s"
  "fs (snd (check_call args r s)) = apply_writes (writes r) (fs s)"
  "pdfinfo (snd (check_call args r s)) = pdfinfo s"
  "procs (snd (check_call args r s)) = procs s @ [Check_call args]"
  "pdfinfo_lock (snd (check_call args r s)) = pdfinfo_lock s"
  "store_ops (snd (check_call args r s)) = store_ops s"
  by (simp_all add: check_call_def Let_def)

subsection \<open>The stages, one by one\<close>

lemma rasterize_procs:
  assumes "get_pageinfo input_file s = (Return p, s1)"
  shows "procs (snd (rasterize_with_ghostscript str_of tmp input_file output_file r s)) =
           procs s1 @ [Popen (rasterize_args str_of tmp (raster_device p) p input_file),
                       Communicate None]"
  using assms
  by (simp add: rasterize_with_ghostscript_def Let_def copy_def level_defs
           split: prod.splits option.splits)

lemma rasterize_logged:
  assumes "get_pageinfo input_file s = (Return p, s1)"
  shows "logged (snd (rasterize_with_ghostscript str_of tmp input_file output_file r s)) =
           logged s1
           @ (if stdout r \<noteq> [] then [(Debug, Str (stdout r), True)] else [])
           @ (if stderr r \<noteq> [] then [(Error, Str (stderr r), True)] else [])
           @ (if returncode r \<noteq> 0 then [(Error, Str ''Ghostscript rendering failed'', True)] else [])"
  using assms
  by (simp add: rasterize_with_ghostscript_def Let_def copy_def level_defs
           split: prod.splits option.splits)

lemma rasterize_failure:
  assumes "get_pageinfo input_file s = (Return p, s1)" and "returncode r \<noteq> 0"
  shows "fst (rasterize_with_ghostscript str_of tmp input_file output_file r s) = Return ()"
    and "fs (snd (rasterize_with_ghostscript str_of tmp input_file output_file r s)) =
           (apply_writes (writes r) ((fs s1)(tmp \<mapsto> Text [])))(tmp := None)"
  using assms
  by (simp_all add: rasterize_with_ghostscript_def Let_def copy_def level_defs
           split: prod.splits option.splits)

lemma apply_writes_keeps: "f p \<noteq> None \<Longrightarrow> apply_writes ws f p \<noteq> None"
  unfolding apply_writes_def
  by (induction ws arbitrary: f) (auto split: prod.splits)

lemma rasterize_returns:
  assumes "get_pageinfo input_file s = (Return p, s1)" and "tmp \<noteq> output_file"
  shows "fst (rasterize_with_ghostscript str_of tmp input_file output_file r s) = Return ()"
proof -
  have "((fs s1)(tmp \<mapsto> Text [])) tmp \<noteq> None" by simp
  then have "apply_writes (writes r) ((fs s1)(tmp \<mapsto> Text [])) tmp \<noteq> None"
    by (rule apply_writes_keeps)
  then obtain c where "apply_writes (writes r) ((fs s1)(tmp \<mapsto> Text [])) tmp = Some c"
    by auto
  then show ?thesis
    using assms
    by (simp add: rasterize_with_ghostscript_def Let_def copy_def level_defs)
qed

lemma repair_pdf_nonzero:
  "returncode r \<noteq> 0 \<Longrightarrow>
   fst (repair_pdf g input_file output_file r s) =
     Raise (CalledProcessError (returncode r) [''mutool'', ''clean'', input_file, output_file])"
  by (simp add: repair_pdf_def check_call_def Let_def)

lemma repair_pdf_zero:
  assumes "returncode r = 0" and "g (apply_writes (writes r) (fs s)) output_file = Inr pages"
  shows "fst (repair_pdf g input_file output_file r s) = Return ()"
    and "pdfinfo (snd (repair_pdf g input_file output_file r s)) = pdfinfo s @ pages"
    and "store_ops (snd (repair_pdf g input_file output_file r s)) =
           store_ops s @ [(Extend (length pages), True)]"
    and "pdfinfo_lock (snd (repair_pdf g input_file output_file r s)) = False"
    and "procs (snd (repair_pdf g input_file output_file r s)) =
           procs s @ [Check_call [''mutool'', ''clean'', input_file, output_file]]"
    and "logged (snd (repair_pdf g input_file output_file r s)) =
           logged s @ [(Info, Store_repr (pdfinfo s @ pages), True)]"
    and "fs (snd (repair_pdf g input_file output_file r s)) = apply_writes (writes r) (fs s)"
  using assms
  by (simp_all add: repair_pdf_def check_call_def Let_def level_defs)

lemma split_pages_nonzero:
  "returncode r \<noteq> 0 \<Longrightarrow>
   fst (split_pages input_file output_files name_root r s) =
     Raise (CalledProcessError (returncode r) [''pdfseparate'', input_file, name_root @ ''%06d.page.pdf''])"
  by (simp add: split_pages_def check_call_def Let_def)

lemma merge_pages_nonzero:
  "returncode r \<noteq> 0 \<Longrightarrow> input_files \<noteq> [] \<Longrightarrow>
   fst (merge_pages tmp input_files output_file r s) =
     Raise (CalledProcessError (returncode r) (merge_args tmp input_files))"
  by (simp add: merge_pages_def check_call_def Let_def)

lemma merge_pages_procs:
  "input_files \<noteq> [] \<Longrightarrow>
   procs (snd (merge_pages tmp input_files output_file r s)) =
     procs s @ [Check_call (merge_args tmp input_files)]"
  by (simp add: merge_pages_def Let_def copy_def check_call_def split: option.splits)

lemma ocr_tesseract_nonzero:
  "returncode r \<noteq> 0 \<Longrightarrow> get_pageinfo input_file s = (Return p, s1) \<Longrightarrow>
   fst (ocr_tesseract language config tpl input_file output_file (Exited r) s) =
     Raise (CalledProcessError (returncode r) (tesseract_args language config input_file output_file))"
  by (simp add: ocr_tesseract_def Let_def)

lemma ocr_tesseract_logged:
  assumes "get_pageinfo input_file s = (Return p, s1)"
  shows "logged (snd (ocr_tesseract language config tpl input_file output_file (Exited r) s)) =
           logged s1
           @ (if stdout r \<noteq> [] then [(Info, Str (stdout r), True)] else [])
           @ (if stderr r \<noteq> [] then [(Error, Str (stderr r), True)] else [])"
    and "logged (snd (ocr_tesseract language config tpl input_file output_file (TimeoutExpired r) s)) =
           logged s1"
  using assms
  by (simp_all add: ocr_tesseract_def Let_def level_defs move_def split: option.splits)

lemma ocr_tesseract_timeout:
  assumes "get_pageinfo input_file s = (Return p, s1)"
  shows "fst (ocr_tesseract language config tpl input_file output_file (TimeoutExpired r) s) = Return ()"
    and "procs (snd (ocr_tesseract language config tpl input_file output_file (TimeoutExpired r) s)) =
           procs s1 @ [Popen (tesseract_args language config input_file output_file),
                       Communicate (Some 180), Kill, Communicate None]"
    and "fs (snd (ocr_tesseract language config tpl input_file output_file (TimeoutExpired r) s)) =
           (apply_writes (writes r) (fs s1))(output_file \<mapsto> tpl (width_pixels p) (height_pixels p))"
    and "pdfinfo (snd (ocr_tesseract language config tpl input_file output_file (TimeoutExpired r) s)) =
           pdfinfo s1"
  using assms by (simp_all add: ocr_tesseract_def Let_def)

lemma validate_pdfa_nonzero:
  "returncode r \<noteq> 0 \<Longrightarrow>
   fst (validate_pdfa jar cfg input_file output_file r s) =
     Raise (RuntimeError ''Unexpected error while checking compliance to PDF/A file.'')"
  by (simp add: validate_pdfa_def Let_def)

lemma validate_pdfa_logged:
  "logged (snd (validate_pdfa jar cfg input_file output_file r s)) =
     logged s @ [(Debug, Str (stdout r), True),
                 (if returncode r \<noteq> 0 then (Error, Str (stdout r), True)
                  else if \<not> pdf_is_valid (stdout r)
                  then (Warning, Str ''Output file: The generated PDF/A file is INVALID'', True)
                  else if \<not> pdf_is_pdfa (stdout r)
                  then (Warning, Str ''Output file: Generated file is a VALID PDF but not PDF/A'', True)
                  else (Info, Str ''Output file: The generated PDF/A file is VALID'', True))]"
  by (simp add: validate_pdfa_def Let_def level_defs copy_def split: option.splits)

lemma validate_pdfa_zero:
  assumes "returncode r = 0" and "apply_writes (writes r) (fs s) input_file = Some c"
    and "input_file \<noteq> output_file"
  shows "fst (validate_pdfa jar cfg input_file output_file r s) = Return ()"
    and "fs (snd (validate_pdfa jar cfg input_file output_file r s)) =
           (apply_writes (writes r) (fs s))(output_file \<mapsto> c)"
  using assms
  by (simp_all add: validate_pdfa_def Let_def level_defs copy_def)

lemma py_round_near: "\<bar>of_int (py_round x) - x\<bar> \<le> 1 / 2"
proof -
  obtain f where f: "f = \<lfloor>x\<rfloor>" by simp
  have lo: "of_int f \<le> x" and hi: "x < of_int f + 1" unfolding f by linarith+
  have r: "py_round x =
             (if x - of_int f < 1 / 2 then f
              else if 1 / 2 < x - of_int f then f + 1
              else if even f then f else f + 1)"
    by (simp add: py_round_def Let_def f)
  show ?thesis unfolding r using lo hi by (auto simp: abs_if)
qed

lemma find_pair_files:
  "find (\<lambda>ii. endswith ii ''.hocr'') [stem @ ''.page.png'', stem @ ''.hocr''] = Some (stem @ ''.hocr'')"
  "find (\<lambda>ii. endswith ii ''.page.png'') [stem @ ''.page.png'', stem @ ''.hocr''] = Some (stem @ ''.page.png'')"
  by (simp_all add: endswith_def)

lemma render_page_unfold:
  assumes "find (\<lambda>ii. endswith ii ''.hocr'') infiles = Some hocr"
      and "find (\<lambda>ii. endswith ii ''.page.png'') infiles = Some img"
      and "get_pageinfo img s = (Return p, s1)"
  shows "render_page to_pdf infiles output_file s =
           (case to_pdf (fs s1) hocr (render_dpi p) img False True of
              Inl e \<Rightarrow> (Raise e, s1)
            | Inr pdf \<Rightarrow> (Return (), s1\<lparr>fs := (fs s1)(output_file \<mapsto> pdf)\<rparr>))"
  using assms by (simp add: render_page_def Let_def)

subsection \<open>Sorting the inputs of the merge\<close>

lemma sort_key_permutation:
  assumes "mset xs = mset ys" and "sorted (map f ys)" and "distinct (map f ys)"
  shows "sort_key f xs = ys"
proof -
  let ?zs = "sort_key f xs"
  have m: "mset ?zs = mset ys" using assms(1) by simp
  then have s: "set ?zs = set ys" by (rule mset_eq_setD)
  have mm: "mset (map f ?zs) = mset (map f ys)" using m by simp
  have s1: "set (map f ?zs) = set (map f ys)" using mm by (rule mset_eq_setD)
  have d1: "distinct (map f ?zs)" using mm assms(3) by (metis mset_eq_imp_distinct_iff)
  have o1: "sorted (map f ?zs)" by (rule sorted_sort_key)
  have e: "map f ?zs = map f ys"
    using o1 d1 assms(2,3) s1 by (rule sorted_distinct_set_unique)
  have "inj_on f (set ys)" using assms(3) by (simp add: distinct_map)
  then have "inj_on f (set ?zs \<union> set ys)" using s by simp
  then show ?thesis using e by (simp add: inj_on_map_eq_map)
qed

lemma rendered_keys:
  "\<forall>n\<in>set ns. n < 1000000 \<Longrightarrow> map prefix_key (map rendered_file ns) = map int ns"
  by (induction ns) (simp_all add: prefix_key_rendered)

lemma merge_inputs_sorted:
  assumes "mset finished = mset (map rendered_file ns)" and "sorted ns" and "distinct ns"
    and "\<forall>n\<in>set ns. n < 1000000"
  shows "merge_inputs finished postscript = map rendered_file ns @ [postscript]"
proof -
  have k: "map prefix_key (map rendered_file ns) = map int ns"
    using assms(4) by (rule rendered_keys)
  have so: "sorted (map prefix_key (map rendered_file ns))"
    unfolding k using assms(2) by (simp add: sorted_map)
  have di: "distinct (map prefix_key (map rendered_file ns))"
    unfolding k using assms(3) by (simp add: distinct_map)
  have "sort_key prefix_key finished = map rendered_file ns"
    using assms(1) so di by (rule sort_key_permutation)
  then show ?thesis by (simp add: merge_inputs_def)
qed

subsection \<open>Facts about the examples\<close>

lemma pageno_first_pdf: "pageno_of ''tmp/000001.page.pdf'' = Some 0"
  by code_simp

lemma pageno_first_png: "pageno_of ''tmp/000001.page.png'' = Some 0"
  by code_simp

lemma pageno_second_png: "pageno_of (''tmp/000002'' @ ''.page.png'') = Some (int 1)"
  by code_simp

lemma pageno_million: "pageno_of ''tmp/1000000.page.pdf'' = Some 99999"
proof -
  have b: "basename ''tmp/1000000.page.pdf'' = ''1000000.page.pdf''"
    using basename_append [of "''1000000.page.pdf''" "''tmp''"] by simp
  have d: "list_all is_digit ''100000''" by (simp add: is_digit_def)
  have v: "digits_value ''100000'' = 100000" by (simp add: digits_value_def digit_val_def)
  have "py_int ''100000'' = Some 100000" using py_int_digits [OF _ d] by (simp add: v)
  then show ?thesis by (simp add: pageno_of_def b)
qed

lemma example_page_lookup:
  assumes "pageno_of p = Some 0"
  shows "get_pageinfo p example_state =
     (Return example_page,
      example_state\<lparr>console := [''0''], store_ops := [(Read 0, True)], pdfinfo_lock := False\<rparr>)"
proof -
  have "pageno_of p = Some (int 0)" using assms by simp
  then have "get_pageinfo p example_state =
     (Return (pdfinfo example_state ! 0),
      example_state\<lparr>console := console example_state @ [str_int (int 0)],
        store_ops := store_ops example_state @ [(Read (int 0), True)],
        pdfinfo_lock := False\<rparr>)"
    by (rule get_pageinfo_Return) (simp add: example_state_def)
  moreover have "str_int 0 = ''0''" by code_simp
  ultimately show ?thesis by (simp add: example_state_def)
qed

lemma conformant_report_verdict: "pdf_is_valid conformant_report \<and> pdf_is_pdfa conformant_report"
  by code_simp

lemma malformed_report_verdict: "\<not> pdf_is_valid malformed_report"
  by code_simp

lemma three_pages_repaired:
  "three_pages (apply_writes (writes repair_run) f) ''tmp/in.repaired.pdf'' =
     Inr [example_page, example_page, example_page]"
  by (simp add: three_pages_def repair_run_def apply_writes_def)

subsection \<open>C1: the verdict of the validator and delivery\<close>

text \<open>
  C1 (as amended). When the validator exits with code zero, the candidate is copied to
  the output path (a path other than the candidate's own, which \<open>shutil.copy\<close>
  refuses) whatever the report says: for a malformed report (an error message, "not
  valid" or "Not well-formed") as for the other two verdicts. The verdict appears in
  the log only: a warning for a malformed report and for a valid file that is not
  PDF/A, an information line for a valid PDF/A file.
\<close>

theorem validate_pdfa_always_delivers:
  assumes "returncode r = 0" and "apply_writes (writes r) (fs s) input_file = Some c"
    and "input_file \<noteq> output_file"
  shows "fst (validate_pdfa jar cfg input_file output_file r s) = Return ()
       \<and> fs (snd (validate_pdfa jar cfg input_file output_file r s)) output_file = Some c
       \<and> logged (snd (validate_pdfa jar cfg input_file output_file r s)) =
           logged s @ [(Debug, Str (stdout r), True),
                       (if \<not> pdf_is_valid (stdout r)
                        then (Warning, Str ''Output file: The generated PDF/A file is INVALID'', True)
                        else if \<not> pdf_is_pdfa (stdout r)
                        then (Warning, Str ''Output file: Generated file is a VALID PDF but not PDF/A'', True)
                        else (Info, Str ''Output file: The generated PDF/A file is VALID'', True))]"
  using assms validate_pdfa_zero [OF assms, of jar cfg]
    validate_pdfa_logged [of jar cfg input_file output_file r s]
  by simp

theorem validate_pdfa_always_delivers_witness:
  "fst (validate_pdfa ''JhoveApp.jar'' ''jhove.conf'' ''tmp/merged.pdf'' ''out.pdf''
          \<lparr>returncode = 0, stdout = conformant_report, stderr = [], writes = []\<rparr> merged_state)
     = Return ()
   \<and> fs (snd (validate_pdfa ''JhoveApp.jar'' ''jhove.conf'' ''tmp/merged.pdf'' ''out.pdf''
          \<lparr>returncode = 0, stdout = conformant_report, stderr = [], writes = []\<rparr> merged_state))
        ''out.pdf''
     = Some (Text ''%PDF'')
   \<and> logged (snd (validate_pdfa ''JhoveApp.jar'' ''jhove.conf'' ''tmp/merged.pdf'' ''out.pdf''
          \<lparr>returncode = 0, stdout = conformant_report, stderr = [], writes = []\<rparr> merged_state))
     = [(Debug, Str conformant_report, True),
        (Info, Str ''Output file: The generated PDF/A file is VALID'', True)]"
  using validate_pdfa_always_delivers
    [where r = "\<lparr>returncode = 0, stdout = conformant_report, stderr = [], writes = []\<rparr>"
       and s = merged_state and input_file = "''tmp/merged.pdf''" and c = "Text ''%PDF''"
       and jar = "''JhoveApp.jar''" and cfg = "''jhove.conf''" and output_file = "''out.pdf''"]
    conformant_report_verdict
  by (simp add: merged_state_def example_state_def apply_writes_def)

text \<open>
  C1 as stated fails: a report that says "Not well-formed" is classified as invalid, and
  the candidate is delivered all the same.
\<close>

theorem malformed_is_delivered_counterexample:
  "\<not> pdf_is_valid malformed_report
   \<and> fst (validate_pdfa ''JhoveApp.jar'' ''jhove.conf'' ''tmp/merged.pdf'' ''out.pdf''
          \<lparr>returncode = 0, stdout = malformed_report, stderr = [], writes = []\<rparr> merged_state)
     = Return ()
   \<and> fs (snd (validate_pdfa ''JhoveApp.jar'' ''jhove.conf'' ''tmp/merged.pdf'' ''out.pdf''
          \<lparr>returncode = 0, stdout = malformed_report, stderr = [], writes = []\<rparr> merged_state))
        ''out.pdf''
     = Some (Text ''%PDF'')"
proof -
  let ?r = "\<lparr>returncode = 0, stdout = malformed_report, stderr = [], writes = []\<rparr>"
  have c: "apply_writes (writes ?r) (fs merged_state) ''tmp/merged.pdf'' = Some (Text ''%PDF'')"
    by (simp add: merged_state_def apply_writes_def)
  have z: "returncode ?r = 0" by simp
  show ?thesis
    using validate_pdfa_zero [OF z c, of "''out.pdf''" "''JhoveApp.jar''" "''jhove.conf''"]
      malformed_report_verdict
    by simp
qed

subsection \<open>C2: a non-zero exit code, stage by stage\<close>

text \<open>
  C2 (as amended). When the tool of a stage exits with a non-zero code: the repair,
  split and merge stages (\<open>check_call\<close>) and the text recognition stage (when it did not
  time out) raise \<open>CalledProcessError\<close> with that exit code and the argument vector;
  the validate stage raises a \<open>RuntimeError\<close> that does not carry the exit code; the
  rasterize stage raises nothing: it logs "Ghostscript rendering failed" at error
  level, copies nothing to its output path and returns.
\<close>

theorem nonzero_exit_by_stage:
  assumes "returncode r \<noteq> 0"
  shows "fst (repair_pdf g input_file output_file r s) =
           Raise (CalledProcessError (returncode r) [''mutool'', ''clean'', input_file, output_file])
       \<and> fst (split_pages input_file output_files name_root r s) =
           Raise (CalledProcessError (returncode r)
                    [''pdfseparate'', input_file, name_root @ ''%06d.page.pdf''])
       \<and> (input_files \<noteq> [] \<longrightarrow>
            fst (merge_pages tmp input_files output_file r s) =
              Raise (CalledProcessError (returncode r) (merge_args tmp input_files)))
       \<and> (fst (get_pageinfo input_file s) = Return p \<longrightarrow>
            fst (ocr_tesseract language config tpl input_file output_file (Exited r) s) =
              Raise (CalledProcessError (returncode r)
                       (tesseract_args language config input_file output_file)))
       \<and> fst (validate_pdfa jar cfg input_file output_file r s) =
           Raise (RuntimeError ''Unexpected error while checking compliance to PDF/A file.'')
       \<and> (fst (get_pageinfo input_file s) = Return p \<longrightarrow>
            fst (rasterize_with_ghostscript str_of tmp input_file output_file r s) = Return ()
            \<and> fs (snd (rasterize_with_ghostscript str_of tmp input_file output_file r s)) =
                (apply_writes (writes r) ((fs s)(tmp \<mapsto> Text [])))(tmp := None)
            \<and> logged (snd (rasterize_with_ghostscript str_of tmp input_file output_file r s)) =
                logged s
                @ (if stdout r \<noteq> [] then [(Debug, Str (stdout r), True)] else [])
                @ (if stderr r \<noteq> [] then [(Error, Str (stderr r), True)] else [])
                @ [(Error, Str ''Ghostscript rendering failed'', True)])"
proof -
  have ocr: "fst (ocr_tesseract language config tpl input_file output_file (Exited r) s) =
              Raise (CalledProcessError (returncode r)
                       (tesseract_args language config input_file output_file))"
    if "fst (get_pageinfo input_file s) = Return p"
    using that assms by (elim get_pageinfo_split) (simp add: ocr_tesseract_nonzero)
  have ras: "fst (rasterize_with_ghostscript str_of tmp input_file output_file r s) = Return ()
            \<and> fs (snd (rasterize_with_ghostscript str_of tmp input_file output_file r s)) =
                (apply_writes (writes r) ((fs s)(tmp \<mapsto> Text [])))(tmp := None)
            \<and> logged (snd (rasterize_with_ghostscript str_of tmp input_file output_file r s)) =
                logged s
                @ (if stdout r \<noteq> [] then [(Debug, Str (stdout r), True)] else [])
                @ (if stderr r \<noteq> [] then [(Error, Str (stderr r), True)] else [])
                @ [(Error, Str ''Ghostscript rendering failed'', True)]"
    if "fst (get_pageinfo input_file s) = Return p"
    using that assms
    by (elim get_pageinfo_split) (simp add: rasterize_failure rasterize_logged)
  show ?thesis
    using assms ocr ras
    by (simp add: repair_pdf_nonzero split_pages_nonzero merge_pages_nonzero validate_pdfa_nonzero)
qed

theorem nonzero_exit_by_stage_witness:
  "fst (repair_pdf (\<lambda>f p. Inr []) ''in.pdf'' ''tmp/in.repaired.pdf'' failed_run example_state) =
     Raise (CalledProcessError 1 [''mutool'', ''clean'', ''in.pdf'', ''tmp/in.repaired.pdf''])
   \<and> fst (split_pages ''tmp/in.repaired.pdf'' [] ''tmp/'' failed_run example_state) =
     Raise (CalledProcessError 1 [''pdfseparate'', ''tmp/in.repaired.pdf'', ''tmp/%06d.page.pdf''])
   \<and> fst (merge_pages ''t'' [''000001.rendered.pdf'', ''tmp/in.pdfa_def.ps''] ''tmp/merged.pdf''
            failed_run example_state) =
     Raise (CalledProcessError 1 (merge_args ''t'' [''000001.rendered.pdf'', ''tmp/in.pdfa_def.ps'']))
   \<and> fst (ocr_tesseract [''eng''] [] HOCR_TEMPLATE_format ''tmp/000001.page.png''
            ''tmp/000001.hocr'' (Exited failed_run) example_state) =
     Raise (CalledProcessError 1
              (tesseract_args [''eng''] [] ''tmp/000001.page.png'' ''tmp/000001.hocr''))
   \<and> fst (validate_pdfa ''JhoveApp.jar'' ''jhove.conf'' ''tmp/merged.pdf'' ''out.pdf'' failed_run
            example_state) =
     Raise (RuntimeError ''Unexpected error while checking compliance to PDF/A file.'')
   \<and> fst (rasterize_with_ghostscript (\<lambda>x. ''300'') ''t'' ''tmp/000001.page.pdf''
            ''tmp/000001.page.png'' failed_run example_state) = Return ()"
proof -
  have rc: "returncode failed_run \<noteq> 0" by (simp add: failed_run_def)
  have png: "fst (get_pageinfo ''tmp/000001.page.png'' example_state) = Return example_page"
    by (simp add: example_page_lookup [OF pageno_first_png])
  have pdf: "fst (get_pageinfo ''tmp/000001.page.pdf'' example_state) = Return example_page"
    by (simp add: example_page_lookup [OF pageno_first_pdf])
  have a: "fst (repair_pdf (\<lambda>f p. Inr []) ''in.pdf'' ''tmp/in.repaired.pdf'' failed_run example_state) =
     Raise (CalledProcessError 1 [''mutool'', ''clean'', ''in.pdf'', ''tmp/in.repaired.pdf''])"
    using nonzero_exit_by_stage [OF rc, where g = "\<lambda>f p. Inr []" and input_file = "''in.pdf''"
        and output_file = "''tmp/in.repaired.pdf''" and s = example_state]
    by (simp add: failed_run_def)
  have b: "fst (split_pages ''tmp/in.repaired.pdf'' [] ''tmp/'' failed_run example_state) =
     Raise (CalledProcessError 1 [''pdfseparate'', ''tmp/in.repaired.pdf'', ''tmp/%06d.page.pdf''])"
    using nonzero_exit_by_stage [OF rc, where input_file = "''tmp/in.repaired.pdf''"
        and output_files = "[]" and name_root = "''tmp/''" and s = example_state]
    by (simp add: failed_run_def)
  have c: "fst (merge_pages ''t'' [''000001.rendered.pdf'', ''tmp/in.pdfa_def.ps''] ''tmp/merged.pdf''
            failed_run example_state) =
     Raise (CalledProcessError 1 (merge_args ''t'' [''000001.rendered.pdf'', ''tmp/in.pdfa_def.ps'']))"
    using nonzero_exit_by_stage [OF rc, where tmp = "''t''"
        and input_files = "[''000001.rendered.pdf'', ''tmp/in.pdfa_def.ps'']"
        and output_file = "''tmp/merged.pdf''" and s = example_state]
    by (simp add: failed_run_def)
  have d: "fst (ocr_tesseract [''eng''] [] HOCR_TEMPLATE_format ''tmp/000001.page.png''
            ''tmp/000001.hocr'' (Exited failed_run) example_state) =
     Raise (CalledProcessError 1
              (tesseract_args [''eng''] [] ''tmp/000001.page.png'' ''tmp/000001.hocr''))"
    using nonzero_exit_by_stage [OF rc, where input_file = "''tmp/000001.page.png''"
        and output_file = "''tmp/000001.hocr''" and s = example_state and p = example_page
        and language = "[''eng'']" and config = "[]" and tpl = HOCR_TEMPLATE_format] png
    by (simp add: failed_run_def)
  have e: "fst (validate_pdfa ''JhoveApp.jar'' ''jhove.conf'' ''tmp/merged.pdf'' ''out.pdf'' failed_run
            example_state) =
     Raise (RuntimeError ''Unexpected error while checking compliance to PDF/A file.'')"
    using nonzero_exit_by_stage [OF rc, where input_file = "''tmp/merged.pdf''"
        and output_file = "''out.pdf''" and s = example_state and jar = "''JhoveApp.jar''"
        and cfg = "''jhove.conf''"]
    by simp
  have f: "fst (rasterize_with_ghostscript (\<lambda>x. ''300'') ''t'' ''tmp/000001.page.pdf''
            ''tmp/000001.page.png'' failed_run example_state) = Return ()"
    using nonzero_exit_by_stage [OF rc, where input_file = "''tmp/000001.page.pdf''"
        and output_file = "''tmp/000001.page.png''" and s = example_state and p = example_page
        and str_of = "\<lambda>x. ''300''" and tmp = "''t''"] pdf
    by simp
  show ?thesis using a b c d e f by simp
qed

text \<open>
  C2 as stated fails for the rasterize stage: with exit code 1 the stage returns
  normally, its output file does not exist, and the failure is a log line.
\<close>

theorem rasterize_failure_counterexample:
  "returncode failed_run \<noteq> 0
   \<and> fst (rasterize_with_ghostscript (\<lambda>x. ''300'') ''t'' ''tmp/000001.page.pdf''
            ''tmp/000001.page.png'' failed_run example_state) = Return ()
   \<and> fs (snd (rasterize_with_ghostscript (\<lambda>x. ''300'') ''t'' ''tmp/000001.page.pdf''
            ''tmp/000001.page.png'' failed_run example_state)) ''tmp/000001.page.png'' = None
   \<and> logged (snd (rasterize_with_ghostscript (\<lambda>x. ''300'') ''t'' ''tmp/000001.page.pdf''
            ''tmp/000001.page.png'' failed_run example_state)) =
       [(Error, Str ''Ghostscript rendering failed'', True)]"
proof -
  have rc: "returncode failed_run \<noteq> 0" by (simp add: failed_run_def)
  note l = example_page_lookup [OF pageno_first_pdf]
  show ?thesis
    using rc rasterize_failure [OF l rc, of "\<lambda>x. ''300''" "''t''" "''tmp/000001.page.png''"]
      rasterize_logged [OF l, of "\<lambda>x. ''300''" "''t''" "''tmp/000001.page.png''" failed_run]
    by (simp add: failed_run_def example_state_def apply_writes_def)
qed

subsection \<open>C3: a timeout of the text recognition\<close>

text \<open>
  C3. When the text recognition of a page exceeds the timeout of 180 seconds, the
  process is killed and its streams are read to the end; the fallback hOCR artifact
  (the page box and no word) is written to the stage's output path in place of
  whatever the engine left there; nothing is logged and nothing is raised. No other
  path of the file system is touched by the stage and the metadata store is unchanged,
  so other pages are unaffected. The render stage of that page then succeeds and emits
  a page with the image and an empty invisible text layer. The template and the
  transformer are the ones modelled from the spec.
\<close>

theorem ocr_timeout_fallback:
  assumes "fst (get_pageinfo (stem @ ''.page.png'') s) = Return p"
      and "apply_writes (writes r) (fs s) (stem @ ''.page.png'') = Some (Text png)"
      and "render_dpi p \<noteq> 0"
  shows "fst (ocr_tesseract language config HOCR_TEMPLATE_format (stem @ ''.page.png'')
                (stem @ ''.hocr'') (TimeoutExpired r) s) = Return ()
       \<and> procs (snd (ocr_tesseract language config HOCR_TEMPLATE_format (stem @ ''.page.png'')
                (stem @ ''.hocr'') (TimeoutExpired r) s)) =
           procs s @ [Popen (tesseract_args language config (stem @ ''.page.png'') (stem @ ''.hocr'')),
                      Communicate (Some 180), Kill, Communicate None]
       \<and> fs (snd (ocr_tesseract language config HOCR_TEMPLATE_format (stem @ ''.page.png'')
                (stem @ ''.hocr'') (TimeoutExpired r) s)) =
           (apply_writes (writes r) (fs s))
             (stem @ ''.hocr'' \<mapsto>
                Hocr \<lparr>hocr_width = width_pixels p, hocr_height = height_pixels p, hocr_words = []\<rparr>)
       \<and> logged (snd (ocr_tesseract language config HOCR_TEMPLATE_format (stem @ ''.page.png'')
                (stem @ ''.hocr'') (TimeoutExpired r) s)) = logged s
       \<and> pdfinfo (snd (ocr_tesseract language config HOCR_TEMPLATE_format (stem @ ''.page.png'')
                (stem @ ''.hocr'') (TimeoutExpired r) s)) = pdfinfo s
       \<and> fst (render_page HocrTransform_to_pdf [stem @ ''.page.png'', stem @ ''.hocr''] output_file
                (snd (ocr_tesseract language config HOCR_TEMPLATE_format (stem @ ''.page.png'')
                        (stem @ ''.hocr'') (TimeoutExpired r) s))) = Return ()
       \<and> fs (snd (render_page HocrTransform_to_pdf [stem @ ''.page.png'', stem @ ''.hocr''] output_file
                (snd (ocr_tesseract language config HOCR_TEMPLATE_format (stem @ ''.page.png'')
                        (stem @ ''.hocr'') (TimeoutExpired r) s)))) output_file =
           Some (Page \<lparr>visible_layer = png, page_dpi = render_dpi p, text_layer = [],
                       text_invisible = True, bounding_boxes = False\<rparr>)"
proof -
  let ?img = "stem @ ''.page.png''" and ?hocr = "stem @ ''.hocr''"
  let ?s' = "snd (ocr_tesseract language config HOCR_TEMPLATE_format ?img ?hocr (TimeoutExpired r) s)"
  from assms(1) obtain s1 where g: "get_pageinfo ?img s = (Return p, s1)"
    and f1: "fs s1 = fs s" and l1: "logged s1 = logged s" and p1: "procs s1 = procs s"
    and i1: "pdfinfo s1 = pdfinfo s"
    by (elim get_pageinfo_split)
  note t = ocr_tesseract_timeout [OF g, of language config HOCR_TEMPLATE_format ?hocr r]
  have a: "fst (ocr_tesseract language config HOCR_TEMPLATE_format ?img ?hocr (TimeoutExpired r) s) = Return ()"
    by (rule t(1))
  have b: "procs ?s' = procs s @ [Popen (tesseract_args language config ?img ?hocr),
                      Communicate (Some 180), Kill, Communicate None]"
    using t(2) p1 by simp
  have c: "fs ?s' = (apply_writes (writes r) (fs s))
             (?hocr \<mapsto> Hocr \<lparr>hocr_width = width_pixels p, hocr_height = height_pixels p, hocr_words = []\<rparr>)"
    using t(3) f1 by (simp add: HOCR_TEMPLATE_format_def)
  have d: "logged ?s' = logged s"
    using ocr_tesseract_logged(2) [OF g, of language config HOCR_TEMPLATE_format ?hocr r] l1 by simp
  have e: "pdfinfo ?s' = pdfinfo s" using t(4) i1 by simp
  have "fst (get_pageinfo ?img ?s') = Return p"
    using get_pageinfo_outcome_cong [OF e, of ?img] assms(1) by simp
  then obtain s2 where g2: "get_pageinfo ?img ?s' = (Return p, s2)" and f2: "fs s2 = fs ?s'"
    by (elim get_pageinfo_split)
  have ne: "?img \<noteq> ?hocr" by simp
  have h: "HocrTransform_to_pdf (fs s2) ?hocr (render_dpi p) ?img False True =
             Inr (Page \<lparr>visible_layer = png, page_dpi = render_dpi p, text_layer = [],
                         text_invisible = True, bounding_boxes = False\<rparr>)"
    using assms(2,3) ne by (simp add: HocrTransform_to_pdf_def f2 c)
  note u = render_page_unfold [OF find_pair_files g2, of HocrTransform_to_pdf output_file]
  have r1: "fst (render_page HocrTransform_to_pdf [?img, ?hocr] output_file ?s') = Return ()"
    by (simp add: u h)
  have r2: "fs (snd (render_page HocrTransform_to_pdf [?img, ?hocr] output_file ?s')) output_file =
           Some (Page \<lparr>visible_layer = png, page_dpi = render_dpi p, text_layer = [],
                       text_invisible = True, bounding_boxes = False\<rparr>)"
    by (simp add: u h)
  show ?thesis using a b c d e r1 r2 by simp
qed

theorem ocr_timeout_fallback_witness:
  "fst (ocr_tesseract [''eng''] [] HOCR_TEMPLATE_format (''tmp/000002'' @ ''.page.png'')
          (''tmp/000002'' @ ''.hocr'') (TimeoutExpired killed_run) timeout_state) = Return ()
   \<and> procs (snd (ocr_tesseract [''eng''] [] HOCR_TEMPLATE_format (''tmp/000002'' @ ''.page.png'')
          (''tmp/000002'' @ ''.hocr'') (TimeoutExpired killed_run) timeout_state)) =
       [Popen [''tesseract'', ''-l'', ''eng'', ''tmp/000002.page.png'', ''tmp/000002.hocr'', ''hocr''],
        Communicate (Some 180), Kill, Communicate None]
   \<and> fs (snd (ocr_tesseract [''eng''] [] HOCR_TEMPLATE_format (''tmp/000002'' @ ''.page.png'')
          (''tmp/000002'' @ ''.hocr'') (TimeoutExpired killed_run) timeout_state))
        ''tmp/000002.hocr'' =
       Some (Hocr \<lparr>hocr_width = 2550, hocr_height = 3300, hocr_words = []\<rparr>)
   \<and> logged (snd (ocr_tesseract [''eng''] [] HOCR_TEMPLATE_format (''tmp/000002'' @ ''.page.png'')
          (''tmp/000002'' @ ''.hocr'') (TimeoutExpired killed_run) timeout_state)) = []
   \<and> fst (render_page HocrTransform_to_pdf [''tmp/000002'' @ ''.page.png'', ''tmp/000002'' @ ''.hocr'']
            ''000002.rendered.pdf''
            (snd (ocr_tesseract [''eng''] [] HOCR_TEMPLATE_format (''tmp/000002'' @ ''.page.png'')
                    (''tmp/000002'' @ ''.hocr'') (TimeoutExpired killed_run) timeout_state))) = Return ()
   \<and> fs (snd (render_page HocrTransform_to_pdf [''tmp/000002'' @ ''.page.png'', ''tmp/000002'' @ ''.hocr'']
            ''000002.rendered.pdf''
            (snd (ocr_tesseract [''eng''] [] HOCR_TEMPLATE_format (''tmp/000002'' @ ''.page.png'')
                    (''tmp/000002'' @ ''.hocr'') (TimeoutExpired killed_run) timeout_state))))
        ''000002.rendered.pdf'' =
       Some (Page \<lparr>visible_layer = ''PNG'', page_dpi = 300, text_layer = [],
                   text_invisible = True, bounding_boxes = False\<rparr>)"
proof -
  have "1 < length (pdfinfo timeout_state)"
    by (simp add: timeout_state_def example_state_def)
  then have l: "fst (get_pageinfo (''tmp/000002'' @ ''.page.png'') timeout_state) = Return example_page"
    using get_pageinfo_Return [OF pageno_second_png, of timeout_state]
    by (simp add: timeout_state_def example_state_def)
  have w: "apply_writes (writes killed_run) (fs timeout_state) (''tmp/000002'' @ ''.page.png'') =
             Some (Text ''PNG'')"
    by (simp add: killed_run_def timeout_state_def apply_writes_def)
  have d: "render_dpi example_page = 300"
    by (simp add: render_dpi_def example_page_def py_round_def)
  then have nz: "render_dpi example_page \<noteq> 0" by simp
  show ?thesis
    using ocr_timeout_fallback [OF l w nz, of "[''eng'']" "[]" "''000002.rendered.pdf''"] d
    by (simp add: tesseract_args_def example_page_def timeout_state_def example_state_def
          killed_run_def apply_writes_def)
qed

subsection \<open>C4: the page index is recovered from the file name\<close>

text \<open>
  C4 (as amended). The split stage names the file of page \<open>n\<close> (counted from one) with
  \<open>'%06d' % n\<close>. For every page number from 1 to 999999 this prefix has exactly six
  digits, and every metadata lookup on an artifact that carries it (whatever its
  directory and suffix) reads index \<open>n - 1\<close> of the store: the descriptor of that page.
\<close>

theorem page_index_from_prefix:
  assumes "1 \<le> n" and "n \<le> 999999" and "n \<le> length (pdfinfo s)" and "CHR ''/'' \<notin> set suf"
  shows "length (fmt06d n) = 6
       \<and> pageno_of (page_file (dir @ ''/'') n) = Some (int n - 1)
       \<and> pageno_of (dir @ ''/'' @ fmt06d n @ suf) = Some (int n - 1)
       \<and> fst (get_pageinfo (dir @ ''/'' @ fmt06d n @ suf) s) = Return (pdfinfo s ! (n - 1))"
proof -
  have lt: "n < 1000000" using assms(2) by simp
  have a: "length (fmt06d n) = 6" using lt by (rule fmt06d_length)
  have b: "pageno_of (dir @ ''/'' @ fmt06d n @ suf) = Some (int n - 1)"
    using lt assms(4) by (rule pageno_of_prefix)
  have "pageno_of (dir @ ''/'' @ fmt06d n @ ''.page.pdf'') = Some (int n - 1)"
    using lt by (rule pageno_of_prefix) simp
  then have c: "pageno_of (page_file (dir @ ''/'') n) = Some (int n - 1)"
    by (simp add: page_file_def)
  have i: "int n - 1 = int (n - 1)" using assms(1) by simp
  have "n - 1 < length (pdfinfo s)" using assms(1,3) by simp
  then have d: "fst (get_pageinfo (dir @ ''/'' @ fmt06d n @ suf) s) = Return (pdfinfo s ! (n - 1))"
    using b get_pageinfo_Return [of "dir @ ''/'' @ fmt06d n @ suf" "n - 1" s] by (simp add: i)
  show ?thesis using a b c d by simp
qed

theorem page_index_from_prefix_witness:
  "length (fmt06d 3) = 6
   \<and> pageno_of (page_file (''tmp'' @ ''/'') 3) = Some 2
   \<and> pageno_of (''tmp'' @ ''/'' @ fmt06d 3 @ ''.page.png'') = Some 2
   \<and> fst (get_pageinfo (''tmp'' @ ''/'' @ fmt06d 3 @ ''.page.png'') example_state)
       = Return (pdfinfo example_state ! 2)"
  using page_index_from_prefix [of 3 example_state "''.page.png''" "''tmp''"]
  by (simp add: example_state_def)

text \<open>
  C4 as stated fails for page 1000000: its prefix has seven digits, and the first six
  are read as page 100000, so the lookup reads index 99999 instead of 999999.
\<close>

theorem page_index_million_counterexample:
  "fmt06d 1000000 = ''1000000''
   \<and> pageno_of (page_file ''tmp/'' 1000000) = Some 99999
   \<and> pageno_of (page_file ''tmp/'' 1000000) \<noteq> Some (int 1000000 - 1)"
  by (simp add: page_file_def fmt06d_million pageno_million)

subsection \<open>C5: the raster device\<close>

text \<open>
  C5. The rasterize stage chooses the device from the images the page descriptor
  records: \<open>pngmono\<close> when every image has one component and one bit per component;
  \<open>pnggray\<close> when every image has one component, not all have one bit per component
  and no image's colorspace is \<open>color\<close>; \<open>png16m\<close> in every other case. The device
  chosen is the \<open>-sDEVICE\<close> argument of the rasterizer that the stage starts.
\<close>

theorem raster_device_by_composition:
  assumes "fst (get_pageinfo input_file s) = Return p"
  shows "procs (snd (rasterize_with_ghostscript str_of tmp input_file output_file r s)) =
           procs s @ [Popen [''gs'', ''-dBATCH'', ''-dNOPAUSE'', ''-sDEVICE='' @ raster_device p,
                             ''-o'', tmp,
                             ''-r'' @ str_of (xres_render p) @ ''x'' @ str_of (yres_render p),
                             input_file],
                      Communicate None]
       \<and> (list_all (\<lambda>i. comp i = 1) (images p) \<and> list_all (\<lambda>i. bpc i = 1) (images p)
            \<longrightarrow> raster_device p = ''pngmono'')
       \<and> (list_all (\<lambda>i. comp i = 1) (images p) \<and> \<not> list_all (\<lambda>i. bpc i = 1) (images p)
              \<and> \<not> list_ex (\<lambda>i. color i = ''color'') (images p)
            \<longrightarrow> raster_device p = ''pnggray'')
       \<and> (\<not> (list_all (\<lambda>i. comp i = 1) (images p) \<and> list_all (\<lambda>i. bpc i = 1) (images p))
              \<and> \<not> (list_all (\<lambda>i. comp i = 1) (images p) \<and> \<not> list_all (\<lambda>i. bpc i = 1) (images p)
                     \<and> \<not> list_ex (\<lambda>i. color i = ''color'') (images p))
            \<longrightarrow> raster_device p = ''png16m'')"
proof -
  from assms obtain s1 where g: "get_pageinfo input_file s = (Return p, s1)"
    and ps: "procs s1 = procs s"
    by (elim get_pageinfo_split)
  have "procs (snd (rasterize_with_ghostscript str_of tmp input_file output_file r s)) =
           procs s @ [Popen (rasterize_args str_of tmp (raster_device p) p input_file),
                      Communicate None]"
    using rasterize_procs [OF g, of str_of tmp output_file r] ps by simp
  then show ?thesis by (simp add: rasterize_args_def raster_device_def)
qed

theorem raster_device_by_composition_witness:
  "procs (snd (rasterize_with_ghostscript (\<lambda>x. ''300'') ''t'' ''tmp/000001.page.pdf''
               ''tmp/000001.page.png'' clean_run (single_page_state example_page))) =
       [Popen [''gs'', ''-dBATCH'', ''-dNOPAUSE'', ''-sDEVICE=pngmono'', ''-o'', ''t'', ''-r300x300'',
               ''tmp/000001.page.pdf''],
        Communicate None]
   \<and> procs (snd (rasterize_with_ghostscript (\<lambda>x. ''300'') ''t'' ''tmp/000001.page.pdf''
               ''tmp/000001.page.png'' clean_run (single_page_state gray_page))) =
       [Popen [''gs'', ''-dBATCH'', ''-dNOPAUSE'', ''-sDEVICE=pnggray'', ''-o'', ''t'', ''-r300x300'',
               ''tmp/000001.page.pdf''],
        Communicate None]
   \<and> procs (snd (rasterize_with_ghostscript (\<lambda>x. ''300'') ''t'' ''tmp/000001.page.pdf''
               ''tmp/000001.page.png'' clean_run (single_page_state colour_page))) =
       [Popen [''gs'', ''-dBATCH'', ''-dNOPAUSE'', ''-sDEVICE=png16m'', ''-o'', ''t'', ''-r300x300'',
               ''tmp/000001.page.pdf''],
        Communicate None]"
proof -
  have l: "fst (get_pageinfo ''tmp/000001.page.pdf'' (single_page_state q)) = Return q" for q
    using pageno_first_pdf by (simp add: first_page_lookup single_page_state_def)
  have e: "procs (single_page_state q) = []" for q
    by (simp add: single_page_state_def example_state_def)
  have a: "procs (snd (rasterize_with_ghostscript (\<lambda>x. ''300'') ''t'' ''tmp/000001.page.pdf''
               ''tmp/000001.page.png'' clean_run (single_page_state example_page))) =
       [Popen [''gs'', ''-dBATCH'', ''-dNOPAUSE'', ''-sDEVICE=pngmono'', ''-o'', ''t'', ''-r300x300'',
               ''tmp/000001.page.pdf''],
        Communicate None]"
    using raster_device_by_composition [OF l [of example_page], where str_of = "\<lambda>x. ''300''"
        and tmp = "''t''" and output_file = "''tmp/000001.page.png''" and r = clean_run] e
    by (simp add: example_page_def mono_image_def)
  have b: "procs (snd (rasterize_with_ghostscript (\<lambda>x. ''300'') ''t'' ''tmp/000001.page.pdf''
               ''tmp/000001.page.png'' clean_run (single_page_state gray_page))) =
       [Popen [''gs'', ''-dBATCH'', ''-dNOPAUSE'', ''-sDEVICE=pnggray'', ''-o'', ''t'', ''-r300x300'',
               ''tmp/000001.page.pdf''],
        Communicate None]"
    using raster_device_by_composition [OF l [of gray_page], where str_of = "\<lambda>x. ''300''"
        and tmp = "''t''" and output_file = "''tmp/000001.page.png''" and r = clean_run] e
    by (simp add: gray_page_def example_page_def)
  have c: "procs (snd (rasterize_with_ghostscript (\<lambda>x. ''300'') ''t'' ''tmp/000001.page.pdf''
               ''tmp/000001.page.png'' clean_run (single_page_state colour_page))) =
       [Popen [''gs'', ''-dBATCH'', ''-dNOPAUSE'', ''-sDEVICE=png16m'', ''-o'', ''t'', ''-r300x300'',
               ''tmp/000001.page.pdf''],
        Communicate None]"
    using raster_device_by_composition [OF l [of colour_page], where str_of = "\<lambda>x. ''300''"
        and tmp = "''t''" and output_file = "''tmp/000001.page.png''" and r = clean_run] e
    by (simp add: colour_page_def example_page_def mono_image_def)
  show ?thesis by (intro conjI) (rule a, rule b, rule c)
qed

subsection \<open>C6: the order of the pages in the merge\<close>

text \<open>
  C6. The merge stage calls the compositor with the format declaration (the last of
  its inputs) first and the pages after it, in the order of its input list. With the
  inputs collected as the spec has the scheduler do it (by the numeric prefix of each
  rendered page's path), the pages of a document of \<open>N\<close> pages follow the declaration in
  the order 1 to \<open>N\<close>, in whatever order the per-page stages finished.
\<close>

theorem merge_page_order:
  assumes "mset finished = mset (map rendered_file [1..<Suc N])" and "N \<le> 999999"
  shows "merge_args tmp (pages @ [postscript]) = merge_flags tmp @ [postscript] @ pages
       \<and> merge_inputs finished postscript = map rendered_file [1..<Suc N] @ [postscript]
       \<and> procs (snd (merge_pages tmp (merge_inputs finished postscript) output_file r s)) =
           procs s @ [Check_call (merge_flags tmp @ [postscript] @ map rendered_file [1..<Suc N])]"
proof -
  have a: "merge_args tmp (qs @ [postscript]) = merge_flags tmp @ [postscript] @ qs" for qs
    by (simp add: merge_args_def)
  have al: "\<forall>n\<in>set [1..<Suc N]. n < 1000000" using assms(2) by (auto simp del: upt_Suc)
  have b: "merge_inputs finished postscript = map rendered_file [1..<Suc N] @ [postscript]"
    by (rule merge_inputs_sorted [OF assms(1) sorted_upt distinct_upt al])
  have "procs (snd (merge_pages tmp (map rendered_file [1..<Suc N] @ [postscript]) output_file r s)) =
           procs s @ [Check_call (merge_args tmp (map rendered_file [1..<Suc N] @ [postscript]))]"
    by (rule merge_pages_procs) simp
  then show ?thesis using a b by (simp del: upt_Suc)
qed

theorem merge_page_order_witness:
  "merge_inputs [rendered_file 2, rendered_file 3, rendered_file 1] ''tmp/in.pdfa_def.ps'' =
     [rendered_file 1, rendered_file 2, rendered_file 3, ''tmp/in.pdfa_def.ps'']
   \<and> procs (snd (merge_pages ''t''
        (merge_inputs [rendered_file 2, rendered_file 3, rendered_file 1] ''tmp/in.pdfa_def.ps'')
        ''tmp/merged.pdf'' repair_run example_state)) =
     [Check_call (merge_flags ''t'' @
        [''tmp/in.pdfa_def.ps'', rendered_file 1, rendered_file 2, rendered_file 3])]"
proof -
  have u: "[1..<Suc 3] = [1, 2, 3]" by (simp add: upt_rec)
  have m: "mset [rendered_file 2, rendered_file 3, rendered_file 1] =
           mset (map rendered_file [1..<Suc 3])"
    unfolding u by simp
  have n: "(3::nat) \<le> 999999" by simp
  note t = merge_page_order [OF m n, of "''t''" "[]" "''tmp/in.pdfa_def.ps''" "''tmp/merged.pdf''"
        repair_run example_state]
  have pe: "procs example_state = []" by (simp add: example_state_def)
  have b: "merge_inputs [rendered_file 2, rendered_file 3, rendered_file 1] ''tmp/in.pdfa_def.ps'' =
     [rendered_file 1, rendered_file 2, rendered_file 3, ''tmp/in.pdfa_def.ps'']"
    using t [THEN conjunct2, THEN conjunct1, unfolded u]
    by (simp only: list.map append.simps)
  have c: "procs (snd (merge_pages ''t''
        (merge_inputs [rendered_file 2, rendered_file 3, rendered_file 1] ''tmp/in.pdfa_def.ps'')
        ''tmp/merged.pdf'' repair_run example_state)) =
     [Check_call (merge_flags ''t'' @
        [''tmp/in.pdfa_def.ps'', rendered_file 1, rendered_file 2, rendered_file 3])]"
    using t [THEN conjunct2, THEN conjunct2, unfolded u]
    by (simp only: list.map pe append.simps)
  show ?thesis by (intro conjI) (rule b, rule c)
qed

subsection \<open>C7: populating the metadata store\<close>

text \<open>
  C7 (as amended). The repair stage populates the store: after the repair tool has
  exited with code zero, it appends the page descriptors of the repaired document while
  the store's lock is held, and releases the lock. There is no check that the store is
  still empty and no error for a second population: on any store the stage appends.
  On an empty store the length afterwards is the number of descriptors.
\<close>

theorem repair_pdf_populates:
  assumes "returncode r = 0" and "g (apply_writes (writes r) (fs s)) output_file = Inr pages"
  shows "fst (repair_pdf g input_file output_file r s) = Return ()
       \<and> pdfinfo (snd (repair_pdf g input_file output_file r s)) = pdfinfo s @ pages
       \<and> (pdfinfo s = [] \<longrightarrow>
            length (pdfinfo (snd (repair_pdf g input_file output_file r s))) = length pages)
       \<and> store_ops (snd (repair_pdf g input_file output_file r s)) =
            store_ops s @ [(Extend (length pages), True)]
       \<and> pdfinfo_lock (snd (repair_pdf g input_file output_file r s)) = False
       \<and> procs (snd (repair_pdf g input_file output_file r s)) =
            procs s @ [Check_call [''mutool'', ''clean'', input_file, output_file]]"
  using repair_pdf_zero [where g = g and r = r and s = s and output_file = output_file
      and pages = pages and input_file = input_file, OF assms]
  by simp

theorem repair_pdf_populates_witness:
  "fst (repair_pdf three_pages ''in.pdf'' ''tmp/in.repaired.pdf'' repair_run empty_state) = Return ()
   \<and> pdfinfo (snd (repair_pdf three_pages ''in.pdf'' ''tmp/in.repaired.pdf'' repair_run empty_state)) =
       [example_page, example_page, example_page]
   \<and> length (pdfinfo (snd (repair_pdf three_pages ''in.pdf'' ''tmp/in.repaired.pdf'' repair_run
               empty_state))) = 3
   \<and> store_ops (snd (repair_pdf three_pages ''in.pdf'' ''tmp/in.repaired.pdf'' repair_run empty_state)) =
       [(Extend 3, True)]"
proof -
  have rc: "returncode repair_run = 0" by (simp add: repair_run_def)
  show ?thesis
    using repair_pdf_populates [where g = three_pages and r = repair_run and s = empty_state
        and output_file = "''tmp/in.repaired.pdf''" and input_file = "''in.pdf''"
        and pages = "[example_page, example_page, example_page]", OF rc three_pages_repaired]
    by (simp add: empty_state_def example_state_def)
qed

text \<open>
  C7 as stated fails: a second population does not fail, and the store then holds every
  descriptor twice.
\<close>

theorem populate_twice_counterexample:
  "fst (repair_pdf three_pages ''in.pdf'' ''tmp/in.repaired.pdf'' repair_run
          (snd (repair_pdf three_pages ''in.pdf'' ''tmp/in.repaired.pdf'' repair_run empty_state)))
     = Return ()
   \<and> length (pdfinfo (snd (repair_pdf three_pages ''in.pdf'' ''tmp/in.repaired.pdf'' repair_run
        (snd (repair_pdf three_pages ''in.pdf'' ''tmp/in.repaired.pdf'' repair_run empty_state)))))
     = 6"
proof -
  have rc: "returncode repair_run = 0" by (simp add: repair_run_def)
  let ?s1 = "snd (repair_pdf three_pages ''in.pdf'' ''tmp/in.repaired.pdf'' repair_run empty_state)"
  have one: "pdfinfo ?s1 = [example_page, example_page, example_page]"
    using repair_pdf_zero(2) [where g = three_pages and r = repair_run and s = empty_state
        and output_file = "''tmp/in.repaired.pdf''" and input_file = "''in.pdf''"
        and pages = "[example_page, example_page, example_page]", OF rc three_pages_repaired]
    by (simp add: empty_state_def example_state_def)
  show ?thesis
    using repair_pdf_zero(1,2) [where g = three_pages and r = repair_run and s = ?s1
        and output_file = "''tmp/in.repaired.pdf''" and input_file = "''in.pdf''"
        and pages = "[example_page, example_page, example_page]", OF rc three_pages_repaired] one
    by simp
qed

subsection \<open>C8: the render stage\<close>

text \<open>
  C8 (as amended). For every page, the render stage takes the resolution from that
  page's descriptor and passes \<open>dpi = round(max(xres, yres))\<close> to the transformer: the
  nearest integer, which differs from \<open>max(xres, yres)\<close> by at most one half. It calls
  the transformer on the page's hOCR file and rasterized image with
  \<open>showBoundingboxes=False\<close> and \<open>invisibleText=True\<close>, and what the transformer emits
  becomes the stage's output. With the transformer as modelled from the spec, that is a
  single page with the image as visible layer, invisible text placed at this dpi and no
  bounding boxes.
\<close>

theorem render_page_transform:
  assumes "find (\<lambda>ii. endswith ii ''.hocr'') infiles = Some hocr"
      and "find (\<lambda>ii. endswith ii ''.page.png'') infiles = Some img"
      and "fst (get_pageinfo img s) = Return p"
  shows "render_dpi p = py_round (max (xres p) (yres p))
       \<and> \<bar>of_int (render_dpi p) - max (xres p) (yres p)\<bar> \<le> 1 / 2
       \<and> fst (render_page to_pdf infiles output_file s) =
           (case to_pdf (fs s) hocr (render_dpi p) img False True of
              Inl e \<Rightarrow> Raise e | Inr pdf \<Rightarrow> Return ())
       \<and> (to_pdf (fs s) hocr (render_dpi p) img False True = Inr pdf \<longrightarrow>
            fs (snd (render_page to_pdf infiles output_file s)) = (fs s)(output_file \<mapsto> pdf))
       \<and> (fs s hocr = Some (Hocr d) \<and> fs s img = Some (Text png) \<and> render_dpi p \<noteq> 0 \<longrightarrow>
            fs (snd (render_page HocrTransform_to_pdf infiles output_file s)) output_file =
              Some (Page \<lparr>visible_layer = png, page_dpi = render_dpi p,
                          text_layer = map (place_word (render_dpi p)) (hocr_words d),
                          text_invisible = True, bounding_boxes = False\<rparr>))"
proof -
  from assms(3) obtain s1 where g: "get_pageinfo img s = (Return p, s1)" and f: "fs s1 = fs s"
    by (elim get_pageinfo_split)
  note u = render_page_unfold [OF assms(1,2) g]
  have a: "render_dpi p = py_round (max (xres p) (yres p))" by (simp add: render_dpi_def)
  have b: "\<bar>of_int (render_dpi p) - max (xres p) (yres p)\<bar> \<le> 1 / 2"
    unfolding a by (rule py_round_near)
  have c: "fst (render_page to_pdf infiles output_file s) =
           (case to_pdf (fs s) hocr (render_dpi p) img False True of
              Inl e \<Rightarrow> Raise e | Inr pdf \<Rightarrow> Return ())"
    by (simp add: u f split: sum.splits)
  have d: "fs (snd (render_page to_pdf infiles output_file s)) = (fs s)(output_file \<mapsto> pdf)"
    if "to_pdf (fs s) hocr (render_dpi p) img False True = Inr pdf"
    using that by (simp add: u f)
  have e: "fs (snd (render_page HocrTransform_to_pdf infiles output_file s)) output_file =
              Some (Page \<lparr>visible_layer = png, page_dpi = render_dpi p,
                          text_layer = map (place_word (render_dpi p)) (hocr_words d),
                          text_invisible = True, bounding_boxes = False\<rparr>)"
    if "fs s hocr = Some (Hocr d)" and "fs s img = Some (Text png)" and "render_dpi p \<noteq> 0"
    using that by (simp add: u f HocrTransform_to_pdf_def)
  show ?thesis using a b c d e by simp
qed

theorem render_page_transform_witness:
  "render_dpi example_page = 300
   \<and> fst (render_page HocrTransform_to_pdf [''tmp/000001'' @ ''.page.png'', ''tmp/000001'' @ ''.hocr'']
            ''000001.rendered.pdf'' ocr_done_state) = Return ()
   \<and> fs (snd (render_page HocrTransform_to_pdf [''tmp/000001'' @ ''.page.png'', ''tmp/000001'' @ ''.hocr'']
            ''000001.rendered.pdf'' ocr_done_state)) ''000001.rendered.pdf'' =
       Some (Page \<lparr>visible_layer = ''PNG'', page_dpi = 300,
                   text_layer = [\<lparr>glyph_text = ''Hello'', glyph_x_pt = 72, glyph_y_pt = 144\<rparr>],
                   text_invisible = True, bounding_boxes = False\<rparr>)"
proof -
  have l: "fst (get_pageinfo (''tmp/000001'' @ ''.page.png'') ocr_done_state) = Return example_page"
    using pageno_first_png by (simp add: first_page_lookup ocr_done_state_def example_state_def)
  have d: "render_dpi example_page = 300"
    by (simp add: render_dpi_def example_page_def py_round_def)
  have h: "HocrTransform_to_pdf (fs ocr_done_state) (''tmp/000001'' @ ''.hocr'') 300
             (''tmp/000001'' @ ''.page.png'') False True =
       Inr (Page \<lparr>visible_layer = ''PNG'', page_dpi = 300,
                   text_layer = [\<lparr>glyph_text = ''Hello'', glyph_x_pt = 72, glyph_y_pt = 144\<rparr>],
                   text_invisible = True, bounding_boxes = False\<rparr>)"
    by (simp add: HocrTransform_to_pdf_def ocr_done_state_def place_word_def px2pt_def)
  show ?thesis
    using render_page_transform [OF find_pair_files l, where to_pdf = HocrTransform_to_pdf
        and output_file = "''000001.rendered.pdf''"] d h
    by simp
qed

text \<open>
  C8 as stated fails where the larger resolution is not an integer: for 72.5 and 72 the
  transform uses 72 dots per inch, not 72.5.
\<close>

theorem render_dpi_rounds_counterexample:
  "max (xres half_page) (yres half_page) = 145 / 2
   \<and> render_dpi half_page = 72
   \<and> fs (snd (render_page HocrTransform_to_pdf [''tmp/000001'' @ ''.page.png'', ''tmp/000001'' @ ''.hocr'']
            ''000001.rendered.pdf'' half_state)) ''000001.rendered.pdf'' =
       Some (Page \<lparr>visible_layer = ''PNG'', page_dpi = 72,
                   text_layer = [\<lparr>glyph_text = ''Hello'', glyph_x_pt = 300, glyph_y_pt = 600\<rparr>],
                   text_invisible = True, bounding_boxes = False\<rparr>)"
proof -
  have m: "max (xres half_page) (yres half_page) = 145 / 2"
    by (simp add: half_page_def example_page_def)
  have "\<lfloor>145 / 2 :: rat\<rfloor> = 72" by (rule floor_unique) simp_all
  then have d: "render_dpi half_page = 72"
    by (simp add: render_dpi_def m py_round_def)
  have "fst (get_pageinfo (''tmp/000001'' @ ''.page.png'') half_state) = Return half_page"
    using pageno_first_png by (simp add: first_page_lookup half_state_def)
  then obtain s1 where g: "get_pageinfo (''tmp/000001'' @ ''.page.png'') half_state = (Return half_page, s1)"
    and f: "fs s1 = fs half_state"
    by (elim get_pageinfo_split)
  have h: "HocrTransform_to_pdf (fs half_state) (''tmp/000001'' @ ''.hocr'') 72
             (''tmp/000001'' @ ''.page.png'') False True =
       Inr (Page \<lparr>visible_layer = ''PNG'', page_dpi = 72,
                   text_layer = [\<lparr>glyph_text = ''Hello'', glyph_x_pt = 300, glyph_y_pt = 600\<rparr>],
                   text_invisible = True, bounding_boxes = False\<rparr>)"
    by (simp add: HocrTransform_to_pdf_def half_state_def ocr_done_state_def place_word_def px2pt_def)
  show ?thesis
    using render_page_unfold [OF find_pair_files g, of HocrTransform_to_pdf "''000001.rendered.pdf''"]
      m d h f
    by simp
qed

subsection \<open>C9: where the captured streams are logged\<close>

text \<open>
  C9 (as amended). Every line goes through the logger while its mutex is held. The
  rasterize stage sends a non-empty standard output to the debug level and a non-empty
  standard error to the error level. The text recognition stage sends a non-empty
  standard output to the information level and a non-empty standard error to the error
  level when the engine exits in time, and logs neither stream after a timeout. The
  validate stage sends the standard output (empty or not) to the debug level and
  discards the standard error.
\<close>

theorem stream_routing_by_stage:
  "(fst (get_pageinfo input_file s) = Return p \<longrightarrow>
      logged (snd (rasterize_with_ghostscript str_of tmp input_file output_file r s)) =
        logged s
        @ (if stdout r \<noteq> [] then [(Debug, Str (stdout r), True)] else [])
        @ (if stderr r \<noteq> [] then [(Error, Str (stderr r), True)] else [])
        @ (if returncode r \<noteq> 0 then [(Error, Str ''Ghostscript rendering failed'', True)] else []))
   \<and> (fst (get_pageinfo input_file s) = Return p \<longrightarrow>
      logged (snd (ocr_tesseract language config tpl input_file output_file (Exited r) s)) =
        logged s
        @ (if stdout r \<noteq> [] then [(Info, Str (stdout r), True)] else [])
        @ (if stderr r \<noteq> [] then [(Error, Str (stderr r), True)] else []))
   \<and> (fst (get_pageinfo input_file s) = Return p \<longrightarrow>
      logged (snd (ocr_tesseract language config tpl input_file output_file (TimeoutExpired r) s)) =
        logged s)
   \<and> logged (snd (validate_pdfa jar cfg input_file output_file r s)) =
        logged s @ [(Debug, Str (stdout r), True),
                    (if returncode r \<noteq> 0 then (Error, Str (stdout r), True)
                     else if \<not> pdf_is_valid (stdout r)
                     then (Warning, Str ''Output file: The generated PDF/A file is INVALID'', True)
                     else if \<not> pdf_is_pdfa (stdout r)
                     then (Warning, Str ''Output file: Generated file is a VALID PDF but not PDF/A'', True)
                     else (Info, Str ''Output file: The generated PDF/A file is VALID'', True))]"
proof -
  have a: "logged (snd (rasterize_with_ghostscript str_of tmp input_file output_file r s)) =
        logged s
        @ (if stdout r \<noteq> [] then [(Debug, Str (stdout r), True)] else [])
        @ (if stderr r \<noteq> [] then [(Error, Str (stderr r), True)] else [])
        @ (if returncode r \<noteq> 0 then [(Error, Str ''Ghostscript rendering failed'', True)] else [])"
    if "fst (get_pageinfo input_file s) = Return p"
    using that by (elim get_pageinfo_split) (simp add: rasterize_logged)
  have b: "logged (snd (ocr_tesseract language config tpl input_file output_file (Exited r) s)) =
        logged s
        @ (if stdout r \<noteq> [] then [(Info, Str (stdout r), True)] else [])
        @ (if stderr r \<noteq> [] then [(Error, Str (stderr r), True)] else [])"
    if "fst (get_pageinfo input_file s) = Return p"
    using that by (elim get_pageinfo_split) (simp add: ocr_tesseract_logged)
  have c: "logged (snd (ocr_tesseract language config tpl input_file output_file (TimeoutExpired r) s)) =
        logged s"
    if "fst (get_pageinfo input_file s) = Return p"
    using that by (elim get_pageinfo_split) (simp add: ocr_tesseract_logged)
  show ?thesis using a b c validate_pdfa_logged [of jar cfg input_file output_file r s] by simp
qed

theorem stream_routing_by_stage_witness:
  "logged (snd (rasterize_with_ghostscript (\<lambda>x. ''300'') ''t'' ''tmp/000001.page.pdf''
      ''tmp/000001.page.png''
      \<lparr>returncode = 0, stdout = ''GPL Ghostscript'', stderr = ''warning'', writes = []\<rparr>
      example_state)) =
     [(Debug, Str ''GPL Ghostscript'', True), (Error, Str ''warning'', True)]
   \<and> logged (snd (ocr_tesseract [''eng''] [] HOCR_TEMPLATE_format ''tmp/000001.page.png''
        ''tmp/000001.hocr''
        (Exited \<lparr>returncode = 0, stdout = ''page 1'', stderr = ''warning'', writes = []\<rparr>)
        example_state)) =
     [(Info, Str ''page 1'', True), (Error, Str ''warning'', True)]
   \<and> logged (snd (ocr_tesseract [''eng''] [] HOCR_TEMPLATE_format ''tmp/000001.page.png''
        ''tmp/000001.hocr''
        (TimeoutExpired \<lparr>returncode = - 9, stdout = ''page 1'', stderr = ''warning'', writes = []\<rparr>)
        example_state)) = []"
proof -
  have png: "fst (get_pageinfo ''tmp/000001.page.png'' example_state) = Return example_page"
    by (simp add: example_page_lookup [OF pageno_first_png])
  have pdf: "fst (get_pageinfo ''tmp/000001.page.pdf'' example_state) = Return example_page"
    by (simp add: example_page_lookup [OF pageno_first_pdf])
  have e: "logged example_state = []" by (simp add: example_state_def)
  have a: "logged (snd (rasterize_with_ghostscript (\<lambda>x. ''300'') ''t'' ''tmp/000001.page.pdf''
      ''tmp/000001.page.png''
      \<lparr>returncode = 0, stdout = ''GPL Ghostscript'', stderr = ''warning'', writes = []\<rparr>
      example_state)) =
     [(Debug, Str ''GPL Ghostscript'', True), (Error, Str ''warning'', True)]"
    using stream_routing_by_stage [where input_file = "''tmp/000001.page.pdf''"
        and s = example_state and p = example_page and str_of = "\<lambda>x. ''300''" and tmp = "''t''"
        and output_file = "''tmp/000001.page.png''"
        and r = "\<lparr>returncode = 0, stdout = ''GPL Ghostscript'', stderr = ''warning'', writes = []\<rparr>"]
      pdf e
    by simp
  have b: "logged (snd (ocr_tesseract [''eng''] [] HOCR_TEMPLATE_format ''tmp/000001.page.png''
        ''tmp/000001.hocr''
        (Exited \<lparr>returncode = 0, stdout = ''page 1'', stderr = ''warning'', writes = []\<rparr>)
        example_state)) =
     [(Info, Str ''page 1'', True), (Error, Str ''warning'', True)]"
    using stream_routing_by_stage [where input_file = "''tmp/000001.page.png''"
        and s = example_state and p = example_page and language = "[''eng'']" and config = "[]"
        and tpl = HOCR_TEMPLATE_format and output_file = "''tmp/000001.hocr''"
        and r = "\<lparr>returncode = 0, stdout = ''page 1'', stderr = ''warning'', writes = []\<rparr>"]
      png e
    by simp
  have c: "logged (snd (ocr_tesseract [''eng''] [] HOCR_TEMPLATE_format ''tmp/000001.page.png''
        ''tmp/000001.hocr''
        (TimeoutExpired \<lparr>returncode = - 9, stdout = ''page 1'', stderr = ''warning'', writes = []\<rparr>)
        example_state)) = []"
    using stream_routing_by_stage [where input_file = "''tmp/000001.page.png''"
        and s = example_state and p = example_page and language = "[''eng'']" and config = "[]"
        and tpl = HOCR_TEMPLATE_format and output_file = "''tmp/000001.hocr''"
        and r = "\<lparr>returncode = - 9, stdout = ''page 1'', stderr = ''warning'', writes = []\<rparr>"]
      png e
    by simp
  show ?thesis using a b c by simp
qed

text \<open>
  C9 as stated fails for the text recognition stage: its standard output is logged at
  the information level, not at the debug level.
\<close>

theorem ocr_stdout_is_info_counterexample:
  "stdout ocr_run \<noteq> []
   \<and> logged (snd (ocr_tesseract [''eng''] [] HOCR_TEMPLATE_format ''tmp/000001.page.png''
        ''tmp/000001.hocr'' (Exited ocr_run) example_state)) =
     [(Info, Str ''Tesseract Open Source OCR Engine'', True)]"
  using ocr_tesseract_logged(1) [OF example_page_lookup [OF pageno_first_png],
      of "[''eng'']" "[]" HOCR_TEMPLATE_format "''tmp/000001.hocr''" ocr_run]
  by (simp add: ocr_run_def example_state_def)

subsection \<open>C10: a page without images\<close>

text \<open>
  C10. For a page whose descriptor records no embedded image, the rasterize stage
  starts the rasterizer with the monochrome device \<open>pngmono\<close> (both checks over the
  empty list hold), not with the 24-bit default, and the choice raises nothing: the
  stage returns normally (its output path being another one than the temporary file).
\<close>

theorem empty_images_pngmono:
  assumes "fst (get_pageinfo input_file s) = Return p" and "images p = []"
  shows "procs (snd (rasterize_with_ghostscript str_of tmp input_file output_file r s)) =
           procs s @ [Popen [''gs'', ''-dBATCH'', ''-dNOPAUSE'', ''-sDEVICE=pngmono'', ''-o'', tmp,
                             ''-r'' @ str_of (xres_render p) @ ''x'' @ str_of (yres_render p),
                             input_file],
                      Communicate None]
       \<and> raster_device p \<noteq> ''png16m''
       \<and> (tmp \<noteq> output_file \<longrightarrow>
            fst (rasterize_with_ghostscript str_of tmp input_file output_file r s) = Return ())"
proof -
  from assms(1) obtain s1 where g: "get_pageinfo input_file s = (Return p, s1)"
    and ps: "procs s1 = procs s"
    by (elim get_pageinfo_split)
  have d: "raster_device p = ''pngmono''" using assms(2) by (simp add: raster_device_def)
  have a: "procs (snd (rasterize_with_ghostscript str_of tmp input_file output_file r s)) =
           procs s @ [Popen (rasterize_args str_of tmp ''pngmono'' p input_file), Communicate None]"
    using rasterize_procs [OF g, of str_of tmp output_file r] ps d by simp
  have b: "fst (rasterize_with_ghostscript str_of tmp input_file output_file r s) = Return ()"
    if "tmp \<noteq> output_file"
    using g that by (rule rasterize_returns)
  show ?thesis using a b d by (simp add: rasterize_args_def)
qed

theorem empty_images_pngmono_witness:
  "procs (snd (rasterize_with_ghostscript (\<lambda>x. ''300'') ''t'' ''tmp/000001.page.pdf''
               ''tmp/000001.page.png'' clean_run (single_page_state blank_page))) =
       [Popen [''gs'', ''-dBATCH'', ''-dNOPAUSE'', ''-sDEVICE=pngmono'', ''-o'', ''t'', ''-r300x300'',
               ''tmp/000001.page.pdf''],
        Communicate None]
   \<and> fst (rasterize_with_ghostscript (\<lambda>x. ''300'') ''t'' ''tmp/000001.page.pdf''
               ''tmp/000001.page.png'' clean_run (single_page_state blank_page)) = Return ()"
proof -
  have l: "fst (get_pageinfo ''tmp/000001.page.pdf'' (single_page_state blank_page)) = Return blank_page"
    using pageno_first_pdf by (simp add: first_page_lookup single_page_state_def)
  have i: "images blank_page = []" by (simp add: blank_page_def)
  have e: "procs (single_page_state blank_page) = []"
    by (simp add: single_page_state_def example_state_def)
  show ?thesis
    using empty_images_pngmono [OF l i, where str_of = "\<lambda>x. ''300''" and tmp = "''t''"
        and output_file = "''tmp/000001.page.png''" and r = clean_run] e
    by (simp add: blank_page_def example_page_def)
qed

end
